theory Spec2Isabelle
  imports Main "HOL-Library.Sublist"
begin

section \<open>Python values and errors\<close>

text \<open>
  The exceptions that the modelled code can raise. \<open>ExternalError\<close> stands for any
  failure raised inside an external service (the dataset hub, the tokenizer, the model).
\<close>

datatype py_error = TypeError | KeyError | IndexError | ValueError | ExternalError

text \<open>
  A cell of a pandas table: a string, an integer, or a missing value (\<open>None\<close>, \<open>NaN\<close>
  and \<open>pd.NA\<close> are all treated as missing by \<open>isna\<close>, \<open>dropna\<close> and
  \<open>duplicated\<close>). One \<open>char\<close> stands for one character of a Python string.
\<close>

datatype cell = Str string | Num int | NA

text \<open>
  A \<open>pandas.DataFrame\<close>, row-major: the column labels, the index label of each row and
  the rows themselves.
\<close>

record DataFrame =
  columns :: "string list"
  index :: "int list"
  rows :: "cell list list"

text \<open>
  The shape invariant of a table as the dataset hub produces it: distinct column
  labels, one index label per row, one cell per column in every row.
\<close>

definition wf_frame :: "DataFrame \<Rightarrow> bool" where
  "wf_frame df \<longleftrightarrow>
     distinct (columns df) \<and> length (index df) = length (rows df) \<and>
     list_all (\<lambda>r. length r = length (columns df)) (rows df)"

text \<open>What an attribute of an object may hold: \<open>None\<close>, a table, or anything else.\<close>

datatype py_obj = PyNone | Frame DataFrame | Other

fun isinstance_DataFrame :: "py_obj \<Rightarrow> bool" where
  "isinstance_DataFrame (Frame df) = True"
| "isinstance_DataFrame PyNone = False"
| "isinstance_DataFrame Other = False"

section \<open>RawDataImporter\<close>

text \<open>
  The importer's attributes \<open>self._hf_name\<close> and \<open>self._raw_data\<close>.
\<close>

record RawDataImporter =
  hf_name :: string
  stored_raw_data :: py_obj

text \<open>
  Modelled from the spec: the constructor of \<open>AbstractRawDataImporter\<close> lives in
  \<open>core_utils\<close>, outside the sources at hand; before \<open>obtain()\<close> has run no table is
  stored.
\<close>

definition RawDataImporter_init :: "string \<Rightarrow> RawDataImporter" where
  "RawDataImporter_init name = \<lparr>hf_name = name, stored_raw_data = PyNone\<rparr>"

text \<open>
  \<open>obtain\<close>: the first argument is the external call
  \<open>load_dataset(name, split='train').to_pandas()\<close>. Its result is stored before the
  type check, so a failed check leaves the non-table value in place.
\<close>

definition obtain' ::
  "(string \<Rightarrow> py_error + py_obj) \<Rightarrow> RawDataImporter \<Rightarrow> (py_error + unit) \<times> RawDataImporter" where
  "obtain' load_dataset self =
     (case load_dataset (hf_name self) of
        Inl e \<Rightarrow> (Inl e, self)
      | Inr v \<Rightarrow>
          (let self' = self\<lparr>stored_raw_data := v\<rparr>
           in if \<not> isinstance_DataFrame (stored_raw_data self')
              then (Inl TypeError, self')
              else (Inr (), self')))"

definition raw_data :: "RawDataImporter \<Rightarrow> py_error + DataFrame" where
  "raw_data self =
     (if \<not> isinstance_DataFrame (stored_raw_data self) then Inl TypeError
      else (case stored_raw_data self of Frame df \<Rightarrow> Inr df | _ \<Rightarrow> Inl TypeError))"

section \<open>The pandas operations used by the preprocessor\<close>

definition shape :: "DataFrame \<Rightarrow> nat \<times> nat" where
  "shape df = (length (rows df), length (columns df))"

text \<open>\<open>df.replace(old, new)\<close>: every cell equal to \<open>old\<close> becomes \<open>new\<close>.\<close>

definition replace_df :: "cell \<Rightarrow> cell \<Rightarrow> DataFrame \<Rightarrow> DataFrame" where
  "replace_df old new df =
     df\<lparr>rows := map (map (\<lambda>c. if c = old then new else c)) (rows df)\<rparr>"

fun isna_cell :: "cell \<Rightarrow> bool" where
  "isna_cell NA = True"
| "isna_cell (Str s) = False"
| "isna_cell (Num n) = False"

text \<open>\<open>df.isna()\<close>: the table of flags, row-major.\<close>

definition isna :: "DataFrame \<Rightarrow> bool list list" where
  "isna df = map (map isna_cell) (rows df)"

text \<open>
  \<open>.sum()\<close> on a table of flags adds up each column (one count per column label);
  \<open>.sum()\<close> on the resulting series adds up the counts.
\<close>

definition sum_columns :: "nat \<Rightarrow> bool list list \<Rightarrow> nat list" where
  "sum_columns ncols flags = map (\<lambda>j. length (filter (\<lambda>r. r ! j) flags)) [0..<ncols]"

definition sum_series :: "nat list \<Rightarrow> nat" where
  "sum_series xs = sum_list xs"

text \<open>\<open>df.dropna()\<close>: keeps the rows without a missing cell, with their index labels.\<close>

definition dropna :: "DataFrame \<Rightarrow> DataFrame" where
  "dropna df =
     (let kept = filter (\<lambda>(i, r). \<not> list_ex isna_cell r) (zip (index df) (rows df))
      in df\<lparr>index := map fst kept, rows := map snd kept\<rparr>)"

text \<open>
  \<open>df.reset_index()\<close>: the old index labels become a new first column, named
  \<open>index\<close>, or \<open>level_0\<close> when a column \<open>index\<close> exists already; inserting a label that
  exists raises \<open>ValueError\<close>. The new index is \<open>0, 1, 2, ...\<close>.
\<close>

definition reset_index :: "DataFrame \<Rightarrow> py_error + DataFrame" where
  "reset_index df =
     (let name = (if ''index'' \<notin> set (columns df) then ''index'' else ''level_0'')
      in if name \<in> set (columns df) then Inl ValueError
         else Inr \<lparr>columns = name # columns df,
                   index = map int [0..<length (rows df)],
                   rows = map (\<lambda>(i, r). Num i # r) (zip (index df) (rows df))\<rparr>)"

fun index_of :: "'a \<Rightarrow> 'a list \<Rightarrow> nat" where
  "index_of x [] = 0"
| "index_of x (y # ys) = (if x = y then 0 else Suc (index_of x ys))"

text \<open>
  \<open>df[name]\<close>: the cells of one column, or \<open>KeyError\<close>. This is the lookup of a label
  that occurs once; with a repeated label pandas returns a sub-table instead, so the
  properties that go through this lookup are stated for tables with distinct labels.
\<close>

definition getitem_column :: "DataFrame \<Rightarrow> string \<Rightarrow> py_error + cell list" where
  "getitem_column df name =
     (if name \<notin> set (columns df) then Inl KeyError
      else Inr (map (\<lambda>r. r ! index_of name (columns df)) (rows df)))"

text \<open>
  \<open>df.duplicated()\<close>: a row is flagged when an equal row was seen before it (missing
  values compare equal to each other); an empty table gives an empty series.
\<close>

fun duplicated_from :: "cell list list \<Rightarrow> cell list list \<Rightarrow> bool list" where
  "duplicated_from seen [] = []"
| "duplicated_from seen (r # rs) = (r \<in> set seen) # duplicated_from (r # seen) rs"

definition duplicated :: "DataFrame \<Rightarrow> bool list" where
  "duplicated df =
     (if rows df = [] \<or> columns df = [] then [] else duplicated_from [] (rows df))"

definition sum_flags :: "bool list \<Rightarrow> nat" where
  "sum_flags bs = length (filter (\<lambda>b. b) bs)"

text \<open>Python's \<open>len\<close> on a cell: defined on strings only.\<close>

fun py_len :: "cell \<Rightarrow> py_error + nat" where
  "py_len (Str s) = Inr (length s)"
| "py_len (Num n) = Inl TypeError"
| "py_len NA = Inl TypeError"

text \<open>
  Python's \<open>min(xs, key=len)\<close> and \<open>max(xs, key=len)\<close>: \<open>ValueError\<close> on an empty
  sequence; the key of every item is computed; the running best is replaced only by a
  strictly smaller (larger) key, so the first extremal item is returned.
\<close>

fun min_from :: "cell \<Rightarrow> nat \<Rightarrow> cell list \<Rightarrow> py_error + cell" where
  "min_from best k [] = Inr best"
| "min_from best k (x # xs) =
     (case py_len x of
        Inl e \<Rightarrow> Inl e
      | Inr kx \<Rightarrow> if kx < k then min_from x kx xs else min_from best k xs)"

definition min_key_len :: "cell list \<Rightarrow> py_error + cell" where
  "min_key_len xs =
     (case xs of
        [] \<Rightarrow> Inl ValueError
      | x # xs' \<Rightarrow> (case py_len x of Inl e \<Rightarrow> Inl e | Inr k \<Rightarrow> min_from x k xs'))"

fun max_from :: "cell \<Rightarrow> nat \<Rightarrow> cell list \<Rightarrow> py_error + cell" where
  "max_from best k [] = Inr best"
| "max_from best k (x # xs) =
     (case py_len x of
        Inl e \<Rightarrow> Inl e
      | Inr kx \<Rightarrow> if kx > k then max_from x kx xs else max_from best k xs)"

definition max_key_len :: "cell list \<Rightarrow> py_error + cell" where
  "max_key_len xs =
     (case xs of
        [] \<Rightarrow> Inl ValueError
      | x # xs' \<Rightarrow> (case py_len x of Inl e \<Rightarrow> Inl e | Inr k \<Rightarrow> max_from x k xs'))"

text \<open>\<open>df.rename(columns=mapping)\<close>: labels outside the mapping are kept.\<close>

definition rename_columns :: "(string \<rightharpoonup> string) \<Rightarrow> DataFrame \<Rightarrow> DataFrame" where
  "rename_columns m df =
     df\<lparr>columns := map (\<lambda>c. case m c of None \<Rightarrow> c | Some c' \<Rightarrow> c') (columns df)\<rparr>"

text \<open>
  \<open>df.drop(columns=labels)\<close>: \<open>KeyError\<close> unless every label is a column; otherwise the
  labelled columns are removed from the labels and from every row.
\<close>

definition drop_columns :: "string list \<Rightarrow> DataFrame \<Rightarrow> py_error + DataFrame" where
  "drop_columns labels df =
     (if \<not> list_all (\<lambda>l. l \<in> set (columns df)) labels then Inl KeyError
      else Inr (df\<lparr>columns := filter (\<lambda>c. c \<notin> set labels) (columns df),
                    rows := map (\<lambda>r. map snd (filter (\<lambda>(c, v). c \<notin> set labels)
                                                   (zip (columns df) r))) (rows df)\<rparr>))"

section \<open>RawDataPreprocessor\<close>

text \<open>The attributes \<open>self._raw_data\<close> and \<open>self._data\<close> (\<open>None\<close> until \<open>transform()\<close>).\<close>

record RawDataPreprocessor =
  pre_raw_data :: DataFrame
  pre_data :: "DataFrame option"

text \<open>
  \<open>analyze\<close>. The dictionary display evaluates its values in order, so the column
  lookup (\<open>KeyError\<close>) comes before \<open>min\<close> (\<open>ValueError\<close>, \<open>TypeError\<close>).
\<close>

definition analyze :: "RawDataPreprocessor \<Rightarrow> py_error + (string \<rightharpoonup> nat)" where
  "analyze self =
     (case reset_index (dropna (replace_df (Str []) NA (pre_raw_data self))) of
        Inl e \<Rightarrow> Inl e
      | Inr empty_rows_free \<Rightarrow>
     (let number_of_samples = fst (shape (pre_raw_data self));
          number_of_columns = snd (shape (pre_raw_data self));
          duplicates = sum_flags (duplicated (pre_raw_data self));
          replaced = replace_df (Str []) NA (pre_raw_data self);
          empty_rows = sum_series (sum_columns (length (columns replaced)) (isna replaced))
      in
     (case getitem_column empty_rows_free ''instruction'' of
        Inl e \<Rightarrow> Inl e
      | Inr col_min \<Rightarrow>
     (case min_key_len col_min of
        Inl e \<Rightarrow> Inl e
      | Inr shortest \<Rightarrow>
     (case py_len shortest of
        Inl e \<Rightarrow> Inl e
      | Inr sample_min_len \<Rightarrow>
     (case getitem_column empty_rows_free ''instruction'' of
        Inl e \<Rightarrow> Inl e
      | Inr col_max \<Rightarrow>
     (case max_key_len col_max of
        Inl e \<Rightarrow> Inl e
      | Inr longest \<Rightarrow>
     (case py_len longest of
        Inl e \<Rightarrow> Inl e
      | Inr sample_max_len \<Rightarrow>
        Inr (map_of
          [(''dataset_number_of_samples'', number_of_samples),
           (''dataset_columns'', number_of_columns),
           (''dataset_duplicates'', duplicates),
           (''dataset_empty_rows'', empty_rows),
           (''dataset_sample_min_len'', sample_min_len),
           (''dataset_sample_max_len'', sample_max_len)])))))))))"

definition rename_map :: "string \<rightharpoonup> string" where
  "rename_map = map_of [(''instruction'', ''question''), (''output'', ''target'')]"

text \<open>\<open>transform\<close>: \<open>self._data\<close> is assigned only when rename and drop both returned.\<close>

definition transform :: "RawDataPreprocessor \<Rightarrow> py_error + RawDataPreprocessor" where
  "transform self =
     (case drop_columns [''input'', ''text''] (rename_columns rename_map (pre_raw_data self)) of
        Inl e \<Rightarrow> Inl e
      | Inr d \<Rightarrow> Inr (self\<lparr>pre_data := Some d\<rparr>))"

section \<open>TaskDataset\<close>

record TaskDataset =
  ds_data :: DataFrame

definition TaskDataset_len :: "TaskDataset \<Rightarrow> nat" where
  "TaskDataset_len self = length (rows (ds_data self))"

text \<open>
  \<open>df.iloc[i]\<close> for an integer: \<open>IndexError\<close> when \<open>i >= n\<close> or \<open>i < -n\<close>; a negative
  position counts from the end. The row comes back as a series: labels with values.
  \<open>series[label]\<close> is the value of a label that occurs once, or \<open>KeyError\<close>; with
  a repeated label pandas returns all matching values, so the values retrieved are
  stated for tables with distinct labels.
\<close>

definition iloc :: "DataFrame \<Rightarrow> int \<Rightarrow> py_error + (string \<times> cell) list" where
  "iloc df i =
     (let n = int (length (rows df))
      in if i \<ge> n \<or> i < - n then Inl IndexError
         else Inr (zip (columns df) (rows df ! nat (if i < 0 then n + i else i))))"

definition series_getitem :: "(string \<times> cell) list \<Rightarrow> string \<Rightarrow> py_error + cell" where
  "series_getitem s label =
     (case map_of s label of None \<Rightarrow> Inl KeyError | Some v \<Rightarrow> Inr v)"

definition TaskDataset_getitem :: "TaskDataset \<Rightarrow> int \<Rightarrow> py_error + cell \<times> cell" where
  "TaskDataset_getitem self i =
     (case iloc (ds_data self) i of
        Inl e \<Rightarrow> Inl e
      | Inr row_q \<Rightarrow>
     (case series_getitem row_q ''question'' of
        Inl e \<Rightarrow> Inl e
      | Inr q \<Rightarrow>
     (case iloc (ds_data self) i of
        Inl e \<Rightarrow> Inl e
      | Inr row_t \<Rightarrow>
     (case series_getitem row_t ''target'' of
        Inl e \<Rightarrow> Inl e
      | Inr t \<Rightarrow> Inr (q, t)))))"

section \<open>LLMPipeline\<close>

text \<open>
  The tokenizer and the model are external services: the pipeline holds them as
  functions that may fail. \<open>tokenizer\<close> is the call
  \<open>self._tokenizer(text, max_length=..., padding=True, truncation=True, return_tensors='pt')\<close>,
  \<open>model_generate\<close> is \<open>self._model.generate(**tokens, max_length=...)\<close> and
  \<open>batch_decode\<close> is \<open>self._tokenizer.batch_decode(output, skip_special_tokens=True)\<close>.
\<close>

record ('tok, 'out) LLMPipeline =
  max_length :: int
  tokenizer :: "string \<Rightarrow> int \<Rightarrow> py_error + 'tok"
  model_generate :: "'tok \<Rightarrow> int \<Rightarrow> py_error + 'out"
  batch_decode :: "'out \<Rightarrow> py_error + string list"

text \<open>
  \<open>infer_sample\<close>: a sample is a tuple of strings; the result type is \<open>str | None\<close>,
  so a returned string is \<open>Some\<close>. The slice \<open>[len(sample[0]) + 1:]\<close> drops that many
  leading characters.
\<close>

definition infer_sample ::
  "('tok, 'out) LLMPipeline \<Rightarrow> string list \<Rightarrow> py_error + string option" where
  "infer_sample self sample =
     (case sample of
        [] \<Rightarrow> Inl IndexError
      | question # _ \<Rightarrow>
     (case tokenizer self question (max_length self) of
        Inl e \<Rightarrow> Inl e
      | Inr tokens \<Rightarrow>
     (case model_generate self tokens (max_length self) of
        Inl e \<Rightarrow> Inl e
      | Inr output_tokens \<Rightarrow>
     (case batch_decode self output_tokens of
        Inl e \<Rightarrow> Inl e
      | Inr decoded \<Rightarrow>
     (case decoded of
        [] \<Rightarrow> Inl IndexError
      | first # _ \<Rightarrow> Inr (Some (drop (length question + 1) first)))))))"

section \<open>Notions used to state the properties\<close>

text \<open>An empty cell: an empty string or a missing value.\<close>

definition is_empty_cell :: "cell \<Rightarrow> bool" where
  "is_empty_cell c \<longleftrightarrow> c = Str [] \<or> c = NA"

text \<open>A row that contains no empty cell.\<close>

definition complete_row :: "cell list \<Rightarrow> bool" where
  "complete_row r \<longleftrightarrow> \<not> list_ex is_empty_cell r"

definition count_empty_cells :: "DataFrame \<Rightarrow> nat" where
  "count_empty_cells df = sum_list (map (\<lambda>r. length (filter is_empty_cell r)) (rows df))"

text \<open>The number of rows that repeat a row standing before them.\<close>

definition count_repeated_rows :: "cell list list \<Rightarrow> nat" where
  "count_repeated_rows rs = length (filter (\<lambda>i. rs ! i \<in> set (take i rs)) [0..<length rs])"

fun is_str :: "cell \<Rightarrow> bool" where
  "is_str (Str s) = True"
| "is_str (Num n) = False"
| "is_str NA = False"

fun str_len :: "cell \<Rightarrow> nat" where
  "str_len (Str s) = length s"
| "str_len (Num n) = 0"
| "str_len NA = 0"

text \<open>The \<open>instruction\<close> cells of the rows without an empty cell, and their lengths.\<close>

definition complete_instructions :: "DataFrame \<Rightarrow> cell list" where
  "complete_instructions df =
     map (\<lambda>r. r ! index_of ''instruction'' (columns df)) (filter complete_row (rows df))"

definition instruction_lengths :: "DataFrame \<Rightarrow> nat list" where
  "instruction_lengths df = map str_len (complete_instructions df)"

text \<open>The cell of row \<open>i\<close> under a column label.\<close>

definition cell_at :: "DataFrame \<Rightarrow> nat \<Rightarrow> string \<Rightarrow> cell" where
  "cell_at df i label = rows df ! i ! index_of label (columns df)"

section \<open>Example tables and pipelines\<close>

text \<open>A clean table of five rows.\<close>

definition five_rows :: DataFrame where
  "five_rows = \<lparr>columns = [''question'', ''target''], index = [0, 1, 2, 3, 4],
     rows = [[Str ''q0'', Str ''t0''], [Str ''q1'', Str ''t1''], [Str ''q2'', Str ''t2''],
             [Str ''q3'', Str ''t3''], [Str ''q4'', Str ''t4'']]\<rparr>"

text \<open>
  A raw table of three rows: the second repeats the first, the third has an empty
  instruction.
\<close>

definition three_rows :: DataFrame where
  "three_rows = \<lparr>columns = [''instruction'', ''input'', ''output'', ''text''], index = [0, 1, 2],
     rows = [[Str ''hello'', Str ''a'', Str ''b'', Str ''c''],
             [Str ''hello'', Str ''a'', Str ''b'', Str ''c''],
             [Str [], Str ''a'', Str ''b'', Str ''c'']]\<rparr>"

text \<open>The clean table that \<open>transform()\<close> makes of it.\<close>

definition three_rows_clean :: DataFrame where
  "three_rows_clean = \<lparr>columns = [''question'', ''target''], index = [0, 1, 2],
     rows = [[Str ''hello'', Str ''b''], [Str ''hello'', Str ''b''], [Str [], Str ''b'']]\<rparr>"

text \<open>A raw table whose only row has an empty instruction.\<close>

definition one_empty_row :: DataFrame where
  "one_empty_row = \<lparr>columns = [''instruction'', ''input'', ''output'', ''text''], index = [0],
     rows = [[Str [], Str ''a'', Str ''b'', Str ''c'']]\<rparr>"

text \<open>Raw tables with other column sets.\<close>

definition with_id_column :: DataFrame where
  "with_id_column =
     \<lparr>columns = [''instruction'', ''input'', ''output'', ''text'', ''id''], index = [0],
      rows = [[Str ''hello'', Str ''a'', Str ''b'', Str ''c'', Num 7]]\<rparr>"

definition without_output :: DataFrame where
  "without_output = \<lparr>columns = [''instruction'', ''input'', ''text''], index = [0],
     rows = [[Str ''hello'', Str ''a'', Str ''c'']]\<rparr>"

definition without_text :: DataFrame where
  "without_text = \<lparr>columns = [''instruction'', ''input'', ''output''], index = [0],
     rows = [[Str ''hello'', Str ''a'', Str ''b'']]\<rparr>"

definition input_text_only :: DataFrame where
  "input_text_only = \<lparr>columns = [''text'', ''input''], index = [0],
     rows = [[Str ''c'', Str ''a'']]\<rparr>"

text \<open>
  A pipeline whose model echoes the prompt, adds a blank and continues with the prompt
  again; one whose generation step fails; one whose tokenizer fails; one whose decoder
  fails; one whose decoder returns no string.
\<close>

definition echo_pipeline :: "(string, string) LLMPipeline" where
  "echo_pipeline = \<lparr>max_length = 120, tokenizer = (\<lambda>text n. Inr text),
     model_generate = (\<lambda>toks n. Inr (toks @ '' '' @ toks @ '' there'')),
     batch_decode = (\<lambda>out. Inr [out])\<rparr>"

definition failing_pipeline :: "(string, string) LLMPipeline" where
  "failing_pipeline = \<lparr>max_length = 120, tokenizer = (\<lambda>text n. Inr text),
     model_generate = (\<lambda>toks n. Inl ExternalError),
     batch_decode = (\<lambda>out. Inr [out])\<rparr>"

definition untokenizable_pipeline :: "(string, string) LLMPipeline" where
  "untokenizable_pipeline = \<lparr>max_length = 120, tokenizer = (\<lambda>text n. Inl ExternalError),
     model_generate = (\<lambda>toks n. Inr toks),
     batch_decode = (\<lambda>out. Inr [out])\<rparr>"

definition undecodable_pipeline :: "(string, string) LLMPipeline" where
  "undecodable_pipeline = \<lparr>max_length = 120, tokenizer = (\<lambda>text n. Inr text),
     model_generate = (\<lambda>toks n. Inr toks),
     batch_decode = (\<lambda>out. Inl ExternalError)\<rparr>"

definition silent_pipeline :: "(string, string) LLMPipeline" where
  "silent_pipeline = \<lparr>max_length = 120, tokenizer = (\<lambda>text n. Inr text),
     model_generate = (\<lambda>toks n. Inr toks),
     batch_decode = (\<lambda>out. Inr [])\<rparr>"

section \<open>Properties of the importer\<close>

lemma raw_data_not_frame:
  "\<not> isinstance_DataFrame (stored_raw_data self) \<Longrightarrow> raw_data self = Inl TypeError"
  by (simp add: raw_data_def)

lemma obtain_success:
  assumes "obtain' ld self = (Inr (), self')"
  shows "\<exists>df. ld (hf_name self) = Inr (Frame df) \<and> self' = self\<lparr>stored_raw_data := Frame df\<rparr>"
proof (cases "ld (hf_name self)")
  case (Inl e)
  with assms show ?thesis by (simp add: obtain'_def)
next
  case (Inr v)
  with assms show ?thesis
    by (cases v) (auto simp: obtain'_def Let_def)
qed

lemma raw_data_after_failed_check:
  assumes "obtain' ld self = (Inl TypeError, self')" and "ld (hf_name self) \<noteq> Inl TypeError"
  shows "raw_data self' = Inl TypeError"
proof (cases "ld (hf_name self)")
  case (Inl e)
  with assms show ?thesis by (auto simp: obtain'_def)
next
  case (Inr v)
  with assms have "\<not> isinstance_DataFrame (stored_raw_data self')"
    by (auto simp: obtain'_def Let_def split: if_splits)
  then show ?thesis by (rule raw_data_not_frame)
qed

text \<open>
  C7. While the stored raw data is not a table (as in the freshly constructed
  importer), the \<open>raw_data\<close> accessor fails with \<open>TypeError\<close>; after a successful
  \<open>obtain()\<close> it returns exactly the table that was loaded and stored.
\<close>

theorem raw_data_accessor:
  "(\<not> isinstance_DataFrame (stored_raw_data self) \<longrightarrow> raw_data self = Inl TypeError) \<and>
   raw_data (RawDataImporter_init name) = Inl TypeError \<and>
   (obtain' ld self = (Inr (), self') \<longrightarrow>
      (\<exists>df. ld (hf_name self) = Inr (Frame df) \<and> stored_raw_data self' = Frame df \<and>
            raw_data self' = Inr df))"
proof (intro conjI impI)
  assume "\<not> isinstance_DataFrame (stored_raw_data self)"
  then show "raw_data self = Inl TypeError" by (rule raw_data_not_frame)
next
  show "raw_data (RawDataImporter_init name) = Inl TypeError"
    by (simp add: raw_data_def RawDataImporter_init_def)
next
  assume "obtain' ld self = (Inr (), self')"
  from obtain_success [OF this] obtain df where
    "ld (hf_name self) = Inr (Frame df)" "self' = self\<lparr>stored_raw_data := Frame df\<rparr>"
    by blast
  then show "\<exists>df. ld (hf_name self) = Inr (Frame df) \<and> stored_raw_data self' = Frame df \<and>
            raw_data self' = Inr df"
    by (simp add: raw_data_def)
qed

theorem raw_data_accessor_witness:
  "\<not> isinstance_DataFrame (stored_raw_data (RawDataImporter_init ''hub/data'')) \<and>
   raw_data (RawDataImporter_init ''hub/data'') = Inl TypeError \<and>
   obtain' (\<lambda>n. Inr (Frame \<lparr>columns = [''instruction''], index = [0], rows = [[Str ''hi'']]\<rparr>))
       (RawDataImporter_init ''hub/data'')
     = (Inr (), \<lparr>hf_name = ''hub/data'',
          stored_raw_data = Frame \<lparr>columns = [''instruction''], index = [0], rows = [[Str ''hi'']]\<rparr>\<rparr>) \<and>
   raw_data \<lparr>hf_name = ''hub/data'',
          stored_raw_data = Frame \<lparr>columns = [''instruction''], index = [0], rows = [[Str ''hi'']]\<rparr>\<rparr>
     = Inr \<lparr>columns = [''instruction''], index = [0], rows = [[Str ''hi'']]\<rparr>"
  using raw_data_accessor [of "RawDataImporter_init ''hub/data''" "''hub/data''"
      "\<lambda>n. Inr (Frame \<lparr>columns = [''instruction''], index = [0], rows = [[Str ''hi'']]\<rparr>)"
      "\<lparr>hf_name = ''hub/data'',
          stored_raw_data = Frame \<lparr>columns = [''instruction''], index = [0], rows = [[Str ''hi'']]\<rparr>\<rparr>"]
  by (simp add: obtain'_def RawDataImporter_init_def raw_data_def)

section \<open>Properties of transform: the drop step\<close>

lemma rename_keeps_input_text:
  "(case rename_map c of None \<Rightarrow> c | Some c' \<Rightarrow> c') = ''input'' \<longleftrightarrow> c = ''input''"
  "(case rename_map c of None \<Rightarrow> c | Some c' \<Rightarrow> c') = ''text'' \<longleftrightarrow> c = ''text''"
  "''input'' = (case rename_map c of None \<Rightarrow> c | Some c' \<Rightarrow> c') \<longleftrightarrow> c = ''input''"
  "''text'' = (case rename_map c of None \<Rightarrow> c | Some c' \<Rightarrow> c') \<longleftrightarrow> c = ''text''"
  by (auto simp: rename_map_def)

lemma rename_columns_mem:
  "''input'' \<in> set (columns (rename_columns rename_map df)) \<longleftrightarrow> ''input'' \<in> set (columns df)"
  "''text'' \<in> set (columns (rename_columns rename_map df)) \<longleftrightarrow> ''text'' \<in> set (columns df)"
  by (auto simp: rename_columns_def image_iff rename_keeps_input_text)

text \<open>
  C10. \<open>transform()\<close> fails with \<open>KeyError\<close> whenever the raw table lacks a column
  \<open>input\<close> or a column \<open>text\<close>; when both are present it succeeds and stores a clean
  table, whether or not \<open>instruction\<close> and \<open>output\<close> are present.
\<close>

theorem transform_key_error:
  "((''input'' \<notin> set (columns (pre_raw_data self)) \<or> ''text'' \<notin> set (columns (pre_raw_data self)))
      \<longrightarrow> transform self = Inl KeyError) \<and>
   (''input'' \<in> set (columns (pre_raw_data self)) \<and> ''text'' \<in> set (columns (pre_raw_data self))
      \<longrightarrow> (\<exists>d. transform self = Inr (self\<lparr>pre_data := Some d\<rparr>)))"
  by (auto simp: transform_def drop_columns_def rename_columns_mem)

theorem transform_key_error_witness:
  "''text'' \<notin> set (columns (pre_raw_data \<lparr>pre_raw_data = without_text, pre_data = None\<rparr>)) \<and>
   transform \<lparr>pre_raw_data = without_text, pre_data = None\<rparr> = Inl KeyError \<and>
   ''input'' \<in> set (columns (pre_raw_data \<lparr>pre_raw_data = input_text_only, pre_data = None\<rparr>)) \<and>
   ''text'' \<in> set (columns (pre_raw_data \<lparr>pre_raw_data = input_text_only, pre_data = None\<rparr>)) \<and>
   ''instruction'' \<notin> set (columns input_text_only) \<and>
   ''output'' \<notin> set (columns input_text_only) \<and>
   (\<exists>d. transform \<lparr>pre_raw_data = input_text_only, pre_data = None\<rparr>
          = Inr \<lparr>pre_raw_data = input_text_only, pre_data = Some d\<rparr>)"
  using transform_key_error [of "\<lparr>pre_raw_data = without_text, pre_data = None\<rparr>"]
    transform_key_error [of "\<lparr>pre_raw_data = input_text_only, pre_data = None\<rparr>"]
  by (simp add: without_text_def input_text_only_def)

section \<open>Properties of the dataset adapter\<close>

lemma map_of_zip_index_of:
  "label \<in> set cols \<Longrightarrow> length r = length cols \<Longrightarrow>
   map_of (zip cols r) label = Some (r ! index_of label cols)"
proof (induction cols arbitrary: r)
  case Nil
  then show ?case by simp
next
  case (Cons c cols)
  then obtain v vs where r: "r = v # vs" by (cases r) auto
  with Cons show ?case by auto
qed

lemma iloc_out_of_range:
  "i \<ge> int (length (rows df)) \<or> i < - int (length (rows df)) \<Longrightarrow> iloc df i = Inl IndexError"
  by (simp add: iloc_def Let_def)

lemma iloc_in_range:
  "0 \<le> i \<Longrightarrow> i < int (length (rows df)) \<Longrightarrow> iloc df i = Inr (zip (columns df) (rows df ! nat i))"
  by (simp add: iloc_def Let_def)

lemma iloc_negative:
  "i < 0 \<Longrightarrow> - int (length (rows df)) \<le> i \<Longrightarrow>
   iloc df i = iloc df (int (length (rows df)) + i)"
  by (simp add: iloc_def Let_def)

lemma wf_frame_row_length:
  "wf_frame df \<Longrightarrow> k < length (rows df) \<Longrightarrow> length (rows df ! k) = length (columns df)"
  by (simp add: wf_frame_def list_all_length)

lemma getitem_in_range:
  assumes "wf_frame (ds_data self)"
    and "''question'' \<in> set (columns (ds_data self))"
    and "''target'' \<in> set (columns (ds_data self))"
    and "0 \<le> i" and "i < int (length (rows (ds_data self)))"
  shows "TaskDataset_getitem self i =
           Inr (cell_at (ds_data self) (nat i) ''question'', cell_at (ds_data self) (nat i) ''target'')"
proof -
  from assms have len: "length (rows (ds_data self) ! nat i) = length (columns (ds_data self))"
    by (intro wf_frame_row_length) auto
  from assms have il: "iloc (ds_data self) i = Inr (zip (columns (ds_data self)) (rows (ds_data self) ! nat i))"
    by (intro iloc_in_range)
  show ?thesis
    by (simp add: TaskDataset_getitem_def il series_getitem_def
        map_of_zip_index_of [OF assms(2) len] map_of_zip_index_of [OF assms(3) len] cell_at_def)
qed

text \<open>
  C4. For every well-formed table with the columns \<open>question\<close> and \<open>target\<close> (every
  clean table is one), the adapter's length is the table's row count, and for every
  index \<open>i\<close> with \<open>0 \<le> i < length\<close> retrieval returns exactly the pair (question value of
  row \<open>i\<close>, target value of row \<open>i\<close>).
\<close>

theorem dataset_len_getitem:
  assumes "wf_frame (ds_data self)"
    and "''question'' \<in> set (columns (ds_data self))"
    and "''target'' \<in> set (columns (ds_data self))"
  shows "TaskDataset_len self = length (rows (ds_data self)) \<and>
         (\<forall>i. 0 \<le> i \<and> i < int (TaskDataset_len self) \<longrightarrow>
            TaskDataset_getitem self i =
              Inr (cell_at (ds_data self) (nat i) ''question'',
                   cell_at (ds_data self) (nat i) ''target''))"
  using assms by (simp add: TaskDataset_len_def getitem_in_range)

theorem dataset_len_getitem_witness:
  "wf_frame (ds_data \<lparr>ds_data = five_rows\<rparr>) \<and>
   ''question'' \<in> set (columns (ds_data \<lparr>ds_data = five_rows\<rparr>)) \<and>
   ''target'' \<in> set (columns (ds_data \<lparr>ds_data = five_rows\<rparr>)) \<and>
   TaskDataset_len \<lparr>ds_data = five_rows\<rparr> = 5 \<and>
   (0::int) \<le> 3 \<and> 3 < int (TaskDataset_len \<lparr>ds_data = five_rows\<rparr>) \<and>
   TaskDataset_getitem \<lparr>ds_data = five_rows\<rparr> 3 = Inr (Str ''q3'', Str ''t3'')"
proof -
  have hyps: "wf_frame (ds_data \<lparr>ds_data = five_rows\<rparr>)"
    "''question'' \<in> set (columns (ds_data \<lparr>ds_data = five_rows\<rparr>))"
    "''target'' \<in> set (columns (ds_data \<lparr>ds_data = five_rows\<rparr>))"
    by (simp_all add: five_rows_def wf_frame_def)
  have len: "TaskDataset_len \<lparr>ds_data = five_rows\<rparr> = 5"
    by (simp add: TaskDataset_len_def five_rows_def)
  have cells: "cell_at five_rows (nat 3) ''question'' = Str ''q3''"
    "cell_at five_rows (nat 3) ''target'' = Str ''t3''"
    by (simp_all add: cell_at_def five_rows_def)
  from dataset_len_getitem [OF hyps] len
  have "TaskDataset_getitem \<lparr>ds_data = five_rows\<rparr> 3 =
          Inr (cell_at five_rows (nat 3) ''question'', cell_at five_rows (nat 3) ''target'')"
    by simp
  with hyps len cells show ?thesis by simp
qed

lemma getitem_negative_in_range:
  assumes "wf_frame (ds_data self)"
    and "''question'' \<in> set (columns (ds_data self))"
    and "''target'' \<in> set (columns (ds_data self))"
    and "- int (length (rows (ds_data self))) \<le> i" and "i < 0"
  shows "TaskDataset_getitem self i =
           Inr (cell_at (ds_data self) (nat (int (length (rows (ds_data self))) + i)) ''question'',
                cell_at (ds_data self) (nat (int (length (rows (ds_data self))) + i)) ''target'')"
proof -
  let ?n = "int (length (rows (ds_data self)))"
  from assms(4,5) have il: "iloc (ds_data self) i = iloc (ds_data self) (?n + i)"
    by (simp add: iloc_negative)
  have "TaskDataset_getitem self i = TaskDataset_getitem self (?n + i)"
    unfolding TaskDataset_getitem_def il ..
  also from assms(4,5) have "0 \<le> ?n + i" and "?n + i < ?n" by simp_all
  with assms(1-3) have "TaskDataset_getitem self (?n + i) =
      Inr (cell_at (ds_data self) (nat (?n + i)) ''question'',
           cell_at (ds_data self) (nat (?n + i)) ''target'')"
    by (rule getitem_in_range)
  finally show ?thesis .
qed

text \<open>
  C5, as the code has it. Retrieval fails with \<open>IndexError\<close> for every index with
  \<open>index \<ge> row count\<close> or \<open>index < - row count\<close>, whatever the table. An index with
  \<open>- row count \<le> index < 0\<close> is treated as \<open>row count + index\<close>; over a well-formed
  table with the columns \<open>question\<close> and \<open>target\<close> it is not rejected but returns the
  pair of the row at position \<open>row count + index\<close>, and every index with
  \<open>0 \<le> index < row count\<close> returns the pair of the row at that position.
\<close>

theorem getitem_index_error:
  "((i \<ge> int (TaskDataset_len self) \<or> i < - int (TaskDataset_len self))
      \<longrightarrow> TaskDataset_getitem self i = Inl IndexError) \<and>
   (- int (TaskDataset_len self) \<le> i \<and> i < 0
      \<longrightarrow> TaskDataset_getitem self i = TaskDataset_getitem self (int (TaskDataset_len self) + i)) \<and>
   (wf_frame (ds_data self) \<and> ''question'' \<in> set (columns (ds_data self)) \<and>
    ''target'' \<in> set (columns (ds_data self)) \<and>
    - int (TaskDataset_len self) \<le> i \<and> i < 0
      \<longrightarrow> TaskDataset_getitem self i =
            Inr (cell_at (ds_data self) (nat (int (TaskDataset_len self) + i)) ''question'',
                 cell_at (ds_data self) (nat (int (TaskDataset_len self) + i)) ''target'')) \<and>
   (wf_frame (ds_data self) \<and> ''question'' \<in> set (columns (ds_data self)) \<and>
    ''target'' \<in> set (columns (ds_data self)) \<and>
    0 \<le> i \<and> i < int (TaskDataset_len self)
      \<longrightarrow> TaskDataset_getitem self i =
            Inr (cell_at (ds_data self) (nat i) ''question'',
                 cell_at (ds_data self) (nat i) ''target''))"
proof (intro conjI impI)
  assume "i \<ge> int (TaskDataset_len self) \<or> i < - int (TaskDataset_len self)"
  then show "TaskDataset_getitem self i = Inl IndexError"
    by (simp add: TaskDataset_getitem_def TaskDataset_len_def iloc_out_of_range)
next
  assume "- int (TaskDataset_len self) \<le> i \<and> i < 0"
  then have il: "iloc (ds_data self) i = iloc (ds_data self) (int (length (rows (ds_data self))) + i)"
    by (simp add: TaskDataset_len_def iloc_negative)
  show "TaskDataset_getitem self i = TaskDataset_getitem self (int (TaskDataset_len self) + i)"
    unfolding TaskDataset_getitem_def TaskDataset_len_def il ..
next
  assume a: "wf_frame (ds_data self) \<and> ''question'' \<in> set (columns (ds_data self)) \<and>
    ''target'' \<in> set (columns (ds_data self)) \<and>
    - int (TaskDataset_len self) \<le> i \<and> i < 0"
  then have "- int (length (rows (ds_data self))) \<le> i" and "i < 0"
    by (simp_all add: TaskDataset_len_def)
  with a show "TaskDataset_getitem self i =
            Inr (cell_at (ds_data self) (nat (int (TaskDataset_len self) + i)) ''question'',
                 cell_at (ds_data self) (nat (int (TaskDataset_len self) + i)) ''target'')"
    unfolding TaskDataset_len_def by (intro getitem_negative_in_range) simp_all
next
  assume a: "wf_frame (ds_data self) \<and> ''question'' \<in> set (columns (ds_data self)) \<and>
    ''target'' \<in> set (columns (ds_data self)) \<and>
    0 \<le> i \<and> i < int (TaskDataset_len self)"
  then have "0 \<le> i" and "i < int (length (rows (ds_data self)))"
    by (simp_all add: TaskDataset_len_def)
  with a show "TaskDataset_getitem self i =
            Inr (cell_at (ds_data self) (nat i) ''question'',
                 cell_at (ds_data self) (nat i) ''target'')"
    by (intro getitem_in_range) simp_all
qed

theorem getitem_index_error_witness:
  "TaskDataset_len \<lparr>ds_data = five_rows\<rparr> = 5 \<and>
   wf_frame (ds_data \<lparr>ds_data = five_rows\<rparr>) \<and>
   ''question'' \<in> set (columns (ds_data \<lparr>ds_data = five_rows\<rparr>)) \<and>
   ''target'' \<in> set (columns (ds_data \<lparr>ds_data = five_rows\<rparr>)) \<and>
   (5::int) \<ge> int (TaskDataset_len \<lparr>ds_data = five_rows\<rparr>) \<and>
   TaskDataset_getitem \<lparr>ds_data = five_rows\<rparr> 5 = Inl IndexError \<and>
   (- 6::int) < - int (TaskDataset_len \<lparr>ds_data = five_rows\<rparr>) \<and>
   TaskDataset_getitem \<lparr>ds_data = five_rows\<rparr> (- 6) = Inl IndexError \<and>
   (0::int) \<le> 4 \<and> (4::int) < int (TaskDataset_len \<lparr>ds_data = five_rows\<rparr>) \<and>
   TaskDataset_getitem \<lparr>ds_data = five_rows\<rparr> 4 = Inr (Str ''q4'', Str ''t4'') \<and>
   - int (TaskDataset_len \<lparr>ds_data = five_rows\<rparr>) \<le> - 2 \<and> (- 2::int) < 0 \<and>
   TaskDataset_getitem \<lparr>ds_data = five_rows\<rparr> (- 2) = TaskDataset_getitem \<lparr>ds_data = five_rows\<rparr> 3 \<and>
   TaskDataset_getitem \<lparr>ds_data = five_rows\<rparr> (- 2) = Inr (Str ''q3'', Str ''t3'')"
proof -
  let ?ds = "\<lparr>ds_data = five_rows\<rparr>"
  have len: "TaskDataset_len ?ds = 5"
    by (simp add: TaskDataset_len_def five_rows_def)
  have hyps: "wf_frame (ds_data ?ds)" "''question'' \<in> set (columns (ds_data ?ds))"
    "''target'' \<in> set (columns (ds_data ?ds))"
    by (simp_all add: five_rows_def wf_frame_def)
  have cells: "cell_at five_rows (nat 4) ''question'' = Str ''q4''"
    "cell_at five_rows (nat 4) ''target'' = Str ''t4''"
    "cell_at five_rows (nat 3) ''question'' = Str ''q3''"
    "cell_at five_rows (nat 3) ''target'' = Str ''t3''"
    by (simp_all add: cell_at_def five_rows_def)
  from getitem_index_error [where i = 5 and self = ?ds] len
  have five: "TaskDataset_getitem ?ds 5 = Inl IndexError" by simp
  from getitem_index_error [where i = "- 6" and self = ?ds] len
  have six: "TaskDataset_getitem ?ds (- 6) = Inl IndexError" by simp
  from getitem_index_error [where i = 4 and self = ?ds] len hyps
  have "TaskDataset_getitem ?ds 4 =
          Inr (cell_at five_rows (nat 4) ''question'', cell_at five_rows (nat 4) ''target'')"
    by simp
  with cells have four: "TaskDataset_getitem ?ds 4 = Inr (Str ''q4'', Str ''t4'')" by simp
  note at_neg = getitem_index_error [where i = "- 2" and self = ?ds]
  from at_neg [THEN conjunct2, THEN conjunct1] len
  have neg: "TaskDataset_getitem ?ds (- 2) = TaskDataset_getitem ?ds 3"
    by simp
  from at_neg [THEN conjunct2, THEN conjunct2, THEN conjunct1] len hyps
  have "TaskDataset_getitem ?ds (- 2) =
          Inr (cell_at five_rows (nat 3) ''question'', cell_at five_rows (nat 3) ''target'')"
    by simp
  with cells have negv: "TaskDataset_getitem ?ds (- 2) = Inr (Str ''q3'', Str ''t3'')" by simp
  from len hyps five six four neg negv show ?thesis by simp
qed

text \<open>
  C5 as stated fails: over the five-row table the index \<open>-1\<close> does not satisfy
  \<open>0 \<le> index < 5\<close>, yet retrieval returns the last row.
\<close>

theorem getitem_negative_counterexample:
  "TaskDataset_len \<lparr>ds_data = five_rows\<rparr> = 5 \<and>
   \<not> (0 \<le> (- 1::int) \<and> (- 1::int) < 5) \<and>
   TaskDataset_getitem \<lparr>ds_data = five_rows\<rparr> (- 1) = Inr (Str ''q4'', Str ''t4'')"
  by (simp add: TaskDataset_len_def TaskDataset_getitem_def iloc_def series_getitem_def
      five_rows_def)

section \<open>Properties of single-sample inference\<close>

lemma infer_sample_success:
  assumes "tokenizer self q (max_length self) = Inr toks"
    and "model_generate self toks (max_length self) = Inr out"
    and "batch_decode self out = Inr (d # ds)"
  shows "infer_sample self (q # rest) = Inr (Some (drop (length q + 1) d))"
  using assms by (simp add: infer_sample_def)

text \<open>
  C3, as the code has it. When the external steps return, \<open>infer_sample\<close> returns the
  first decoded string with its first \<open>len(question) + 1\<close> characters removed; if that
  string is the question followed by one separator character and a continuation, the
  result is exactly the continuation.
\<close>

theorem infer_sample_strips_echo:
  assumes "tokenizer self q (max_length self) = Inr toks"
    and "model_generate self toks (max_length self) = Inr out"
    and "batch_decode self out = Inr (d # ds)"
  shows "infer_sample self (q # rest) = Inr (Some (drop (length q + 1) d)) \<and>
         (\<forall>sep continuation. d = q @ sep # continuation \<longrightarrow>
            infer_sample self (q # rest) = Inr (Some continuation))"
  using infer_sample_success [OF assms] by auto

theorem infer_sample_strips_echo_witness:
  "tokenizer echo_pipeline ''hi'' (max_length echo_pipeline) = Inr ''hi'' \<and>
   model_generate echo_pipeline ''hi'' (max_length echo_pipeline) = Inr ''hi hi there'' \<and>
   batch_decode echo_pipeline ''hi hi there'' = Inr [''hi hi there''] \<and>
   ''hi hi there'' = ''hi'' @ CHR '' '' # ''hi there'' \<and>
   infer_sample echo_pipeline [''hi'', ''greeting''] = Inr (Some (drop (length ''hi'' + 1) ''hi hi there'')) \<and>
   infer_sample echo_pipeline [''hi'', ''greeting''] = Inr (Some ''hi there'')"
proof -
  have hyps: "tokenizer echo_pipeline ''hi'' (max_length echo_pipeline) = Inr ''hi''"
    "model_generate echo_pipeline ''hi'' (max_length echo_pipeline) = Inr ''hi hi there''"
    "batch_decode echo_pipeline ''hi hi there'' = Inr [''hi hi there'']"
    by (simp_all add: echo_pipeline_def)
  have echo: "''hi hi there'' = ''hi'' @ CHR '' '' # ''hi there''" by simp
  from infer_sample_strips_echo [OF hyps, of "[''greeting'']"] echo
  have "infer_sample echo_pipeline [''hi'', ''greeting''] = Inr (Some (drop (length ''hi'' + 1) ''hi hi there''))"
    and "infer_sample echo_pipeline [''hi'', ''greeting''] = Inr (Some ''hi there'')"
    by blast+
  with hyps echo show ?thesis by blast
qed

text \<open>
  C3 as stated fails: the decoded output \<open>hi hi there\<close> begins with the question \<open>hi\<close>
  and one separator, and the returned string \<open>hi there\<close> still has the question as a
  prefix.
\<close>

theorem infer_sample_prefix_counterexample:
  "batch_decode echo_pipeline ''hi hi there'' = Inr [''hi'' @ CHR '' '' # ''hi there''] \<and>
   infer_sample echo_pipeline [''hi'', ''greeting''] = Inr (Some ''hi there'') \<and>
   prefix ''hi'' ''hi there''"
  by (simp add: echo_pipeline_def infer_sample_def)

text \<open>
  C6, as the code has it. A failure of the tokenizer, of the generation step or of the
  decoder ends \<open>infer_sample\<close> in that same failure, which reaches the caller; an
  empty sample and a decoder that returns no string end it in \<open>IndexError\<close>; when
  all three steps return and the decoder returns at least one string, the prediction
  string is returned. In no case is the result null.
\<close>

theorem infer_sample_failure_propagates:
  "infer_sample self [] = Inl IndexError \<and>
   (tokenizer self q (max_length self) = Inl e \<longrightarrow> infer_sample self (q # rest) = Inl e) \<and>
   (tokenizer self q (max_length self) = Inr toks \<and>
    model_generate self toks (max_length self) = Inl e \<longrightarrow> infer_sample self (q # rest) = Inl e) \<and>
   (tokenizer self q (max_length self) = Inr toks \<and>
    model_generate self toks (max_length self) = Inr out \<and>
    batch_decode self out = Inl e \<longrightarrow> infer_sample self (q # rest) = Inl e) \<and>
   (tokenizer self q (max_length self) = Inr toks \<and>
    model_generate self toks (max_length self) = Inr out \<and>
    batch_decode self out = Inr [] \<longrightarrow> infer_sample self (q # rest) = Inl IndexError) \<and>
   (tokenizer self q (max_length self) = Inr toks \<and>
    model_generate self toks (max_length self) = Inr out \<and>
    batch_decode self out = Inr (d # ds) \<longrightarrow>
      infer_sample self (q # rest) = Inr (Some (drop (length q + 1) d))) \<and>
   infer_sample self sample \<noteq> Inr None"
  by (auto simp: infer_sample_def split: list.splits sum.splits)

theorem infer_sample_failure_propagates_witness:
  "tokenizer untokenizable_pipeline ''hi'' (max_length untokenizable_pipeline) = Inl ExternalError \<and>
   infer_sample untokenizable_pipeline [''hi'', ''greeting''] = Inl ExternalError \<and>
   tokenizer failing_pipeline ''hi'' (max_length failing_pipeline) = Inr ''hi'' \<and>
   model_generate failing_pipeline ''hi'' (max_length failing_pipeline) = Inl ExternalError \<and>
   infer_sample failing_pipeline [''hi'', ''greeting''] = Inl ExternalError \<and>
   tokenizer undecodable_pipeline ''hi'' (max_length undecodable_pipeline) = Inr ''hi'' \<and>
   model_generate undecodable_pipeline ''hi'' (max_length undecodable_pipeline) = Inr ''hi'' \<and>
   batch_decode undecodable_pipeline ''hi'' = Inl ExternalError \<and>
   infer_sample undecodable_pipeline [''hi'', ''greeting''] = Inl ExternalError \<and>
   tokenizer silent_pipeline ''hi'' (max_length silent_pipeline) = Inr ''hi'' \<and>
   model_generate silent_pipeline ''hi'' (max_length silent_pipeline) = Inr ''hi'' \<and>
   batch_decode silent_pipeline ''hi'' = Inr [] \<and>
   infer_sample silent_pipeline [''hi'', ''greeting''] = Inl IndexError \<and>
   tokenizer echo_pipeline ''hi'' (max_length echo_pipeline) = Inr ''hi'' \<and>
   model_generate echo_pipeline ''hi'' (max_length echo_pipeline) = Inr ''hi hi there'' \<and>
   batch_decode echo_pipeline ''hi hi there'' = Inr [''hi hi there''] \<and>
   infer_sample echo_pipeline [''hi'', ''greeting''] = Inr (Some ''hi there'')"
proof -
  have t: "tokenizer untokenizable_pipeline ''hi'' (max_length untokenizable_pipeline) = Inl ExternalError"
    by (simp add: untokenizable_pipeline_def)
  have f: "tokenizer failing_pipeline ''hi'' (max_length failing_pipeline) = Inr ''hi''"
    "model_generate failing_pipeline ''hi'' (max_length failing_pipeline) = Inl ExternalError"
    by (simp_all add: failing_pipeline_def)
  have u: "tokenizer undecodable_pipeline ''hi'' (max_length undecodable_pipeline) = Inr ''hi''"
    "model_generate undecodable_pipeline ''hi'' (max_length undecodable_pipeline) = Inr ''hi''"
    "batch_decode undecodable_pipeline ''hi'' = Inl ExternalError"
    by (simp_all add: undecodable_pipeline_def)
  have s: "tokenizer silent_pipeline ''hi'' (max_length silent_pipeline) = Inr ''hi''"
    "model_generate silent_pipeline ''hi'' (max_length silent_pipeline) = Inr ''hi''"
    "batch_decode silent_pipeline ''hi'' = Inr []"
    by (simp_all add: silent_pipeline_def)
  have e: "tokenizer echo_pipeline ''hi'' (max_length echo_pipeline) = Inr ''hi''"
    "model_generate echo_pipeline ''hi'' (max_length echo_pipeline) = Inr ''hi hi there''"
    "batch_decode echo_pipeline ''hi hi there'' = Inr [''hi hi there'']"
    by (simp_all add: echo_pipeline_def)
  from t infer_sample_failure_propagates [where self = untokenizable_pipeline and q = "''hi''"
      and e = ExternalError and rest = "[''greeting'']"]
  have r0: "infer_sample untokenizable_pipeline [''hi'', ''greeting''] = Inl ExternalError" by blast
  from f infer_sample_failure_propagates [where self = failing_pipeline and q = "''hi''"
      and toks = "''hi''" and e = ExternalError and rest = "[''greeting'']"]
  have r1: "infer_sample failing_pipeline [''hi'', ''greeting''] = Inl ExternalError" by blast
  from u infer_sample_failure_propagates [where self = undecodable_pipeline and q = "''hi''"
      and toks = "''hi''" and out = "''hi''" and e = ExternalError and rest = "[''greeting'']"]
  have r2: "infer_sample undecodable_pipeline [''hi'', ''greeting''] = Inl ExternalError" by blast
  from s infer_sample_failure_propagates [where self = silent_pipeline and q = "''hi''"
      and toks = "''hi''" and out = "''hi''" and rest = "[''greeting'']"]
  have r3: "infer_sample silent_pipeline [''hi'', ''greeting''] = Inl IndexError" by blast
  from e infer_sample_failure_propagates [where self = echo_pipeline and q = "''hi''"
      and toks = "''hi''" and out = "''hi hi there''" and d = "''hi hi there''" and ds = "[]"
      and rest = "[''greeting'']"]
  have "infer_sample echo_pipeline [''hi'', ''greeting''] = Inr (Some (drop (length ''hi'' + 1) ''hi hi there''))"
    by blast
  then have r4: "infer_sample echo_pipeline [''hi'', ''greeting''] = Inr (Some ''hi there'')"
    by simp
  from t f u s e r0 r1 r2 r3 r4 show ?thesis by blast
qed

text \<open>
  C6 as stated fails: with a generation step that fails, \<open>infer_sample\<close> ends in that
  failure and not in a null result.
\<close>

theorem infer_sample_null_counterexample:
  "model_generate failing_pipeline ''hi'' (max_length failing_pipeline) = Inl ExternalError \<and>
   infer_sample failing_pipeline [''hi'', ''greeting''] = Inl ExternalError \<and>
   infer_sample failing_pipeline [''hi'', ''greeting''] \<noteq> Inr None"
  by (simp add: failing_pipeline_def infer_sample_def)

section \<open>Properties of analyze: when it fails\<close>

lemma isna_replace_empty:
  "isna_cell (if c = Str [] then NA else c) = is_empty_cell c"
  by (cases c) (auto simp: is_empty_cell_def)

lemma list_ex_isna_replace:
  "list_ex isna_cell (map (\<lambda>c. if c = Str [] then NA else c) r) = (\<not> complete_row r)"
  by (induction r) (auto simp: complete_row_def isna_replace_empty simp del: isna_cell.simps)

lemma complete_row_replace:
  "complete_row r \<Longrightarrow> map (\<lambda>c. if c = Str [] then NA else c) r = r"
  by (induction r) (auto simp: complete_row_def is_empty_cell_def)

lemma filter_zip_snd:
  "length is = length rs \<Longrightarrow>
   map snd (filter (\<lambda>(i, r). P r) (zip is rs)) = filter P rs"
  by (induction "is" rs rule: list_induct2) auto

lemma rows_dropna_replace_subset:
  "set (rows (dropna (replace_df (Str []) NA df))) \<subseteq>
     (map (\<lambda>c. if c = Str [] then NA else c)) ` {r \<in> set (rows df). complete_row r}"
proof
  fix x
  assume "x \<in> set (rows (dropna (replace_df (Str []) NA df)))"
  then obtain i where
    mem: "(i, x) \<in> set (zip (index df) (map (map (\<lambda>c. if c = Str [] then NA else c)) (rows df)))"
    and nox: "\<not> list_ex isna_cell x"
    by (auto simp: dropna_def replace_df_def Let_def)
  from mem have "x \<in> set (map (map (\<lambda>c. if c = Str [] then NA else c)) (rows df))"
    by (rule set_zip_rightD)
  then obtain r where r: "r \<in> set (rows df)" "x = map (\<lambda>c. if c = Str [] then NA else c) r"
    by auto
  with nox have "complete_row r" by (simp add: list_ex_isna_replace)
  with r show "x \<in> (map (\<lambda>c. if c = Str [] then NA else c)) ` {r \<in> set (rows df). complete_row r}"
    by blast
qed

lemma rows_dropna_empty:
  assumes "\<forall>r\<in>set (rows df). \<not> complete_row r"
  shows "rows (dropna (replace_df (Str []) NA df)) = []"
proof -
  from assms have "{r \<in> set (rows df). complete_row r} = {}" by blast
  with rows_dropna_replace_subset [of df] show ?thesis by simp
qed

lemma reset_index_rows_empty:
  "rows df = [] \<Longrightarrow> reset_index df = Inr df' \<Longrightarrow> rows df' = []"
  by (auto simp: reset_index_def Let_def split: if_splits)

lemma getitem_column_rows_empty:
  "rows df = [] \<Longrightarrow> getitem_column df name = Inr col \<Longrightarrow> col = []"
  by (auto simp: getitem_column_def split: if_splits)

lemma analyze_fails_without_complete_row:
  assumes "\<forall>r\<in>set (rows (pre_raw_data self)). \<not> complete_row r"
  shows "\<exists>e. analyze self = Inl e"
proof (cases "reset_index (dropna (replace_df (Str []) NA (pre_raw_data self)))")
  case (Inl e)
  then show ?thesis by (simp add: analyze_def)
next
  case (Inr erf)
  from rows_dropna_empty [OF assms] Inr have erf: "rows erf = []"
    by (rule reset_index_rows_empty)
  show ?thesis
  proof (cases "getitem_column erf ''instruction''")
    case (Inl e)
    with Inr show ?thesis by (simp add: analyze_def Let_def)
  next
    case col: (Inr col)
    with erf have "col = []" by (rule getitem_column_rows_empty)
    with Inr col show ?thesis by (simp add: analyze_def Let_def min_key_len_def)
  qed
qed

lemma three_rows_report:
  "analyze \<lparr>pre_raw_data = three_rows, pre_data = None\<rparr> =
     Inr (map_of
          [(''dataset_number_of_samples'', 3),
           (''dataset_columns'', 4),
           (''dataset_duplicates'', 1),
           (''dataset_empty_rows'', 1),
           (''dataset_sample_min_len'', 5),
           (''dataset_sample_max_len'', 5)])"
  by (simp add: analyze_def three_rows_def reset_index_def dropna_def replace_df_def Let_def
      shape_def duplicated_def sum_flags_def sum_series_def sum_columns_def isna_def
      getitem_column_def min_key_len_def max_key_len_def eval_nat_numeral)

lemma one_empty_row_fails:
  "analyze \<lparr>pre_raw_data = one_empty_row, pre_data = None\<rparr> = Inl ValueError"
  by (simp add: analyze_def one_empty_row_def reset_index_def dropna_def replace_df_def Let_def
      getitem_column_def min_key_len_def)

text \<open>
  C9. For a raw table with distinct column labels: if every row contains an empty
  cell (an empty string or a missing value), \<open>analyze()\<close> ends in an error and returns
  no report; hence whenever \<open>analyze()\<close> returns a report, some row of the raw table
  has no empty cell.
\<close>

theorem analyze_needs_complete_row:
  assumes "distinct (columns (pre_raw_data self))"
  shows
  "((\<forall>r\<in>set (rows (pre_raw_data self)). \<not> complete_row r) \<longrightarrow> (\<exists>e. analyze self = Inl e)) \<and>
   (analyze self = Inr report \<longrightarrow> (\<exists>r\<in>set (rows (pre_raw_data self)). complete_row r))"
proof (intro conjI impI)
  assume "\<forall>r\<in>set (rows (pre_raw_data self)). \<not> complete_row r"
  then show "\<exists>e. analyze self = Inl e" by (rule analyze_fails_without_complete_row)
next
  assume ok: "analyze self = Inr report"
  show "\<exists>r\<in>set (rows (pre_raw_data self)). complete_row r"
  proof (rule ccontr)
    assume "\<not> (\<exists>r\<in>set (rows (pre_raw_data self)). complete_row r)"
    then have "\<forall>r\<in>set (rows (pre_raw_data self)). \<not> complete_row r" by blast
    from analyze_fails_without_complete_row [OF this] ok show False by auto
  qed
qed

theorem analyze_needs_complete_row_witness:
  "distinct (columns (pre_raw_data \<lparr>pre_raw_data = one_empty_row, pre_data = None\<rparr>)) \<and>
   rows (pre_raw_data \<lparr>pre_raw_data = one_empty_row, pre_data = None\<rparr>)
     = [[Str [], Str ''a'', Str ''b'', Str ''c'']] \<and>
   \<not> complete_row [Str [], Str ''a'', Str ''b'', Str ''c''] \<and>
   (\<exists>e. analyze \<lparr>pre_raw_data = one_empty_row, pre_data = None\<rparr> = Inl e) \<and>
   distinct (columns (pre_raw_data \<lparr>pre_raw_data = three_rows, pre_data = None\<rparr>)) \<and>
   analyze \<lparr>pre_raw_data = three_rows, pre_data = None\<rparr> =
     Inr (map_of
          [(''dataset_number_of_samples'', 3),
           (''dataset_columns'', 4),
           (''dataset_duplicates'', 1),
           (''dataset_empty_rows'', 1),
           (''dataset_sample_min_len'', 5),
           (''dataset_sample_max_len'', 5)]) \<and>
   (\<exists>r\<in>set (rows (pre_raw_data \<lparr>pre_raw_data = three_rows, pre_data = None\<rparr>)). complete_row r)"
proof -
  have d1: "distinct (columns (pre_raw_data \<lparr>pre_raw_data = one_empty_row, pre_data = None\<rparr>))"
    by (simp add: one_empty_row_def)
  have d2: "distinct (columns (pre_raw_data \<lparr>pre_raw_data = three_rows, pre_data = None\<rparr>))"
    by (simp add: three_rows_def)
  have h1: "\<forall>r\<in>set (rows (pre_raw_data \<lparr>pre_raw_data = one_empty_row, pre_data = None\<rparr>)). \<not> complete_row r"
    by (simp add: one_empty_row_def complete_row_def is_empty_cell_def)
  note h2 = three_rows_report
  from analyze_needs_complete_row [OF d1] h1
  have c1: "\<exists>e. analyze \<lparr>pre_raw_data = one_empty_row, pre_data = None\<rparr> = Inl e" by blast
  from analyze_needs_complete_row [OF d2] h2
  have c2: "\<exists>r\<in>set (rows (pre_raw_data \<lparr>pre_raw_data = three_rows, pre_data = None\<rparr>)). complete_row r"
    by blast
  have rows1: "rows (pre_raw_data \<lparr>pre_raw_data = one_empty_row, pre_data = None\<rparr>)
     = [[Str [], Str ''a'', Str ''b'', Str ''c'']]"
    and row1: "\<not> complete_row [Str [], Str ''a'', Str ''b'', Str ''c'']"
    by (simp_all add: one_empty_row_def complete_row_def is_empty_cell_def)
  from d1 d2 rows1 row1 c1 h2 c2 show ?thesis by blast
qed

section \<open>Properties of analyze: the report\<close>

lemma py_len_is_str: "is_str c \<Longrightarrow> py_len c = Inr (str_len c)"
  by (cases c) auto

lemma min_from_fold:
  "list_all is_str xs \<Longrightarrow> py_len best = Inr k \<Longrightarrow>
   \<exists>c. min_from best k xs = Inr c \<and> py_len c = Inr (fold min (map str_len xs) k)"
proof (induction xs arbitrary: best k)
  case Nil
  then show ?case by simp
next
  case (Cons x xs)
  then have x: "py_len x = Inr (str_len x)" and rest: "list_all is_str xs"
    by (simp_all add: py_len_is_str)
  show ?case
  proof (cases "str_len x < k")
    case True
    then have "min (str_len x) k = str_len x" by simp
    with Cons.IH [OF rest x] x True show ?thesis by simp
  next
    case False
    then have "min (str_len x) k = k" by simp
    with Cons.IH [OF rest Cons.prems(2)] x False show ?thesis by simp
  qed
qed

lemma max_from_fold:
  "list_all is_str xs \<Longrightarrow> py_len best = Inr k \<Longrightarrow>
   \<exists>c. max_from best k xs = Inr c \<and> py_len c = Inr (fold max (map str_len xs) k)"
proof (induction xs arbitrary: best k)
  case Nil
  then show ?case by simp
next
  case (Cons x xs)
  then have x: "py_len x = Inr (str_len x)" and rest: "list_all is_str xs"
    by (simp_all add: py_len_is_str)
  show ?case
  proof (cases "k < str_len x")
    case True
    then have "max (str_len x) k = str_len x" by simp
    with Cons.IH [OF rest x] x True show ?thesis by simp
  next
    case False
    then have "max (str_len x) k = k" by simp
    with Cons.IH [OF rest Cons.prems(2)] x False show ?thesis by simp
  qed
qed

lemma min_key_len_Min:
  assumes "xs \<noteq> []" and "list_all is_str xs"
  shows "\<exists>c. min_key_len xs = Inr c \<and> py_len c = Inr (Min (set (map str_len xs)))"
proof -
  from assms obtain x xs' where xs: "xs = x # xs'" by (cases xs) auto
  with assms have x: "py_len x = Inr (str_len x)" and rest: "list_all is_str xs'"
    by (simp_all add: py_len_is_str)
  from min_from_fold [OF rest x] obtain c where
    c: "min_from x (str_len x) xs' = Inr c" "py_len c = Inr (fold min (map str_len xs') (str_len x))"
    by blast
  have "fold min (map str_len xs') (str_len x) = Min (set (map str_len xs))"
    by (simp only: xs list.map Min.set_eq_fold)
  with c x xs show ?thesis by (simp add: min_key_len_def)
qed

lemma max_key_len_Max:
  assumes "xs \<noteq> []" and "list_all is_str xs"
  shows "\<exists>c. max_key_len xs = Inr c \<and> py_len c = Inr (Max (set (map str_len xs)))"
proof -
  from assms obtain x xs' where xs: "xs = x # xs'" by (cases xs) auto
  with assms have x: "py_len x = Inr (str_len x)" and rest: "list_all is_str xs'"
    by (simp_all add: py_len_is_str)
  from max_from_fold [OF rest x] obtain c where
    c: "max_from x (str_len x) xs' = Inr c" "py_len c = Inr (fold max (map str_len xs') (str_len x))"
    by blast
  have "fold max (map str_len xs') (str_len x) = Max (set (map str_len xs))"
    by (simp only: xs list.map Max.set_eq_fold)
  with c x xs show ?thesis by (simp add: max_key_len_def)
qed

lemma upt_Suc_shift: "[0..<Suc n] = 0 # map Suc [0..<n]"
  by (simp add: upt_conv_Cons map_Suc_upt del: upt_Suc)

lemma sum_flags_duplicated_from:
  "sum_flags (duplicated_from seen rs) =
     length (filter (\<lambda>i. rs ! i \<in> set seen \<union> set (take i rs)) [0..<length rs])"
proof (induction rs arbitrary: seen)
  case Nil
  then show ?case by (simp add: sum_flags_def)
next
  case (Cons r rs)
  have "sum_flags (duplicated_from seen (r # rs)) =
          (if r \<in> set seen then 1 else 0) + sum_flags (duplicated_from (r # seen) rs)"
    by (simp add: sum_flags_def)
  also have "sum_flags (duplicated_from (r # seen) rs) =
          length (filter (\<lambda>i. rs ! i \<in> set (r # seen) \<union> set (take i rs)) [0..<length rs])"
    by (rule Cons.IH)
  also have "\<dots> = length (filter (\<lambda>i. (r # rs) ! i \<in> set seen \<union> set (take i (r # rs)))
                              (map Suc [0..<length rs]))"
    by (auto simp: filter_map comp_def intro!: arg_cong [where f = length] filter_cong
        simp del: upt_Suc)
  finally show ?case
    by (simp add: upt_Suc_shift del: upt_Suc)
qed

lemma sum_flags_duplicated:
  assumes "columns df \<noteq> []"
  shows "sum_flags (duplicated df) = count_repeated_rows (rows df)"
proof (cases "rows df = []")
  case True
  then show ?thesis
    by (simp add: duplicated_def count_repeated_rows_def sum_flags_def)
next
  case False
  with assms show ?thesis
    by (simp add: duplicated_def count_repeated_rows_def sum_flags_duplicated_from)
qed

lemma sum_indicator: "sum_list (map (\<lambda>b. if b then 1 else 0) bs) = length (filter (\<lambda>b. b) bs)"
  by (induction bs) auto

lemma sum_indicator_nth:
  "sum_list (map (\<lambda>j. if r ! j then 1 else 0) [0..<length r]) = length (filter (\<lambda>b. b) r)"
proof -
  have "map (\<lambda>j. if r ! j then 1 else (0::nat)) [0..<length r] =
        map (\<lambda>b. if b then 1 else 0) (map (\<lambda>j. r ! j) [0..<length r])"
    by (simp add: comp_def)
  also have "\<dots> = map (\<lambda>b. if b then 1 else 0) r"
    by (simp only: map_nth)
  finally show ?thesis by (simp only: sum_indicator)
qed

lemma sum_columns_Cons:
  "sum_list (sum_columns n (r # flags)) =
     sum_list (map (\<lambda>j. if r ! j then 1 else 0) [0..<n]) + sum_list (sum_columns n flags)"
proof -
  have "sum_columns n (r # flags) =
        map (\<lambda>j. (if r ! j then 1 else 0) + length (filter (\<lambda>r. r ! j) flags)) [0..<n]"
    by (simp add: sum_columns_def)
  then show ?thesis
    by (simp only: sum_list_addf sum_columns_def)
qed

lemma sum_columns_total:
  "list_all (\<lambda>r. length r = n) flags \<Longrightarrow>
   sum_list (sum_columns n flags) = sum_list (map (\<lambda>r. length (filter (\<lambda>b. b) r)) flags)"
proof (induction flags)
  case Nil
  then show ?case by (simp add: sum_columns_def)
next
  case (Cons r flags)
  then have "length r = n" and rest: "list_all (\<lambda>r. length r = n) flags" by simp_all
  then have "sum_list (map (\<lambda>j. if r ! j then 1 else 0) [0..<n]) = length (filter (\<lambda>b. b) r)"
    using sum_indicator_nth [of r] by simp
  with Cons.IH [OF rest] show ?case
    by (simp add: sum_columns_Cons)
qed

lemma empty_rows_count:
  assumes "wf_frame df"
  shows "sum_series (sum_columns (length (columns (replace_df (Str []) NA df)))
                      (isna (replace_df (Str []) NA df))) = count_empty_cells df"
proof -
  have flags: "isna (replace_df (Str []) NA df) = map (map is_empty_cell) (rows df)"
    by (simp add: isna_def replace_df_def comp_def isna_replace_empty del: isna_cell.simps)
  from assms have "list_all (\<lambda>r. length r = length (columns df)) (map (map is_empty_cell) (rows df))"
    by (simp add: wf_frame_def list_all_iff)
  then have "sum_list (sum_columns (length (columns df)) (map (map is_empty_cell) (rows df))) =
             sum_list (map (\<lambda>r. length (filter (\<lambda>b. b) r)) (map (map is_empty_cell) (rows df)))"
    by (rule sum_columns_total)
  also have "\<dots> = count_empty_cells df"
    by (simp add: count_empty_cells_def comp_def filter_map)
  finally have "sum_list (sum_columns (length (columns df)) (isna (replace_df (Str []) NA df)))
                 = count_empty_cells df"
    by (simp only: flags)
  moreover have "columns (replace_df (Str []) NA df) = columns df"
    by (simp add: replace_df_def)
  ultimately show ?thesis
    by (simp only: sum_series_def)
qed

lemma rows_dropna_replace:
  assumes "length (index df) = length (rows df)"
  shows "rows (dropna (replace_df (Str []) NA df)) = filter complete_row (rows df)"
proof -
  let ?g = "map (\<lambda>c. if c = Str [] then NA else c)"
  have "rows (dropna (replace_df (Str []) NA df)) =
        map snd (filter (\<lambda>(i, r). \<not> list_ex isna_cell r) (zip (index df) (map ?g (rows df))))"
    by (simp add: dropna_def replace_df_def Let_def)
  also have "\<dots> = filter (\<lambda>r. \<not> list_ex isna_cell r) (map ?g (rows df))"
    using assms by (intro filter_zip_snd) simp
  also have "\<dots> = map ?g (filter complete_row (rows df))"
    by (simp add: filter_map comp_def list_ex_isna_replace)
  also have "\<dots> = filter complete_row (rows df)"
    by (rule map_idI) (simp add: complete_row_replace)
  finally show ?thesis .
qed

lemma length_index_dropna: "length (index (dropna df)) = length (rows (dropna df))"
  by (simp add: dropna_def Let_def)

lemma columns_dropna_replace: "columns (dropna (replace_df old new df)) = columns df"
  by (simp add: dropna_def replace_df_def Let_def)

lemma map_zip_Cons_nth:
  "length is = length rs \<Longrightarrow>
   map (\<lambda>r. r ! Suc k) (map (\<lambda>(i, r). f i # r) (zip is rs)) = map (\<lambda>r. r ! k) rs"
  by (induction "is" rs rule: list_induct2) auto

lemma reset_index_cases:
  "reset_index df =
     (if ''index'' \<in> set (columns df) \<and> ''level_0'' \<in> set (columns df) then Inl ValueError
      else Inr \<lparr>columns = (if ''index'' \<notin> set (columns df) then ''index'' else ''level_0'') # columns df,
                index = map int [0..<length (rows df)],
                rows = map (\<lambda>(i, r). Num i # r) (zip (index df) (rows df))\<rparr>)"
  unfolding reset_index_def Let_def by (cases "''index'' \<in> set (columns df)") simp_all

lemma getitem_after_reset_index:
  assumes len: "length (index df) = length (rows df)"
    and label: "label \<in> set (columns df)"
    and fresh: "\<not> (''index'' \<in> set (columns df) \<and> ''level_0'' \<in> set (columns df))"
  shows "\<exists>df'. reset_index df = Inr df' \<and>
           getitem_column df' label = Inr (map (\<lambda>r. r ! index_of label (columns df)) (rows df))"
proof -
  define name where "name = (if ''index'' \<notin> set (columns df) then ''index'' else ''level_0'')"
  define df' where "df' = \<lparr>columns = name # columns df, index = map int [0..<length (rows df)],
                      rows = map (\<lambda>(i, r). Num i # r) (zip (index df) (rows df))\<rparr>"
  from fresh have nf: "name \<notin> set (columns df)"
    unfolding name_def by (cases "''index'' \<in> set (columns df)") simp_all
  from fresh have r: "reset_index df = Inr df'"
    unfolding reset_index_cases df'_def name_def by simp
  from nf label have "label \<noteq> name" by blast
  then have io: "index_of label (columns df') = Suc (index_of label (columns df))"
    by (simp add: df'_def)
  from label have mem: "label \<in> set (columns df')" by (simp add: df'_def)
  have rows': "rows df' = map (\<lambda>(i, r). Num i # r) (zip (index df) (rows df))"
    by (simp add: df'_def)
  have "getitem_column df' label =
      Inr (map (\<lambda>r. r ! Suc (index_of label (columns df))) (rows df'))"
    unfolding getitem_column_def io using mem by simp
  also have "map (\<lambda>r. r ! Suc (index_of label (columns df))) (rows df') =
             map (\<lambda>r. r ! index_of label (columns df)) (rows df)"
    unfolding rows' by (rule map_zip_Cons_nth [OF len])
  finally show ?thesis using r by blast
qed

lemma complete_instructions_after_reset_index:
  assumes wf: "wf_frame raw"
    and instr: "''instruction'' \<in> set (columns raw)"
    and fresh: "\<not> (''index'' \<in> set (columns raw) \<and> ''level_0'' \<in> set (columns raw))"
  shows "\<exists>erf. reset_index (dropna (replace_df (Str []) NA raw)) = Inr erf \<and>
           getitem_column erf ''instruction'' = Inr (complete_instructions raw)"
proof -
  let ?dn = "dropna (replace_df (Str []) NA raw)"
  from wf have len: "length (index raw) = length (rows raw)" by (simp add: wf_frame_def)
  have cols: "columns ?dn = columns raw" by (rule columns_dropna_replace)
  have rws: "rows ?dn = filter complete_row (rows raw)" by (rule rows_dropna_replace [OF len])
  from instr have i': "''instruction'' \<in> set (columns ?dn)" unfolding cols .
  from fresh have f': "\<not> (''index'' \<in> set (columns ?dn) \<and> ''level_0'' \<in> set (columns ?dn))"
    unfolding cols .
  have "\<exists>erf. reset_index ?dn = Inr erf \<and>
           getitem_column erf ''instruction'' =
             Inr (map (\<lambda>r. r ! index_of ''instruction'' (columns ?dn)) (rows ?dn))"
    by (rule getitem_after_reset_index [OF length_index_dropna i' f'])
  then show ?thesis by (simp only: cols rws complete_instructions_def)
qed

text \<open>The repeated rows are the rows beyond the distinct ones.\<close>

lemma count_repeated_rows_snoc:
  "count_repeated_rows (rs @ [r]) = count_repeated_rows rs + (if r \<in> set rs then 1 else 0)"
proof -
  have "filter (\<lambda>i. (rs @ [r]) ! i \<in> set (take i (rs @ [r]))) [0..<length rs] =
        filter (\<lambda>i. rs ! i \<in> set (take i rs)) [0..<length rs]"
    by (rule filter_cong) (simp_all add: nth_append)
  then show ?thesis
    by (simp add: count_repeated_rows_def)
qed

lemma count_repeated_rows_card:
  "count_repeated_rows rs + card (set rs) = length rs"
proof (induction rs rule: rev_induct)
  case Nil
  then show ?case by (simp add: count_repeated_rows_def)
next
  case (snoc r rs)
  show ?case
  proof (cases "r \<in> set rs")
    case True
    then have "insert r (set rs) = set rs" by blast
    with snoc True show ?thesis by (simp add: count_repeated_rows_snoc)
  next
    case False
    with snoc show ?thesis by (simp add: count_repeated_rows_snoc)
  qed
qed

lemma count_repeated_rows_distinct:
  "count_repeated_rows rs = length rs - card (set rs)"
  using count_repeated_rows_card [of rs] by simp

lemma three_rows_wf: "wf_frame three_rows"
  by (simp add: wf_frame_def three_rows_def)

text \<open>
  C1, as the code has it. For every well-formed raw table that has an \<open>instruction\<close>
  column, does not have both a column \<open>index\<close> and a column \<open>level_0\<close>, has at
  least one row without an empty cell, and whose \<open>instruction\<close> cells in such rows
  are strings, \<open>analyze()\<close> returns a report in which the sample count is the row
  count, the column count is the number of columns, the duplicate count is the number
  of rows that repeat an earlier row, the empty count is the number of cells that are
  empty strings or missing, and the min/max sample lengths are the shortest and
  longest \<open>instruction\<close> lengths among the rows without an empty cell.
\<close>

theorem analyze_report:
  assumes wf: "wf_frame (pre_raw_data self)"
    and instr: "''instruction'' \<in> set (columns (pre_raw_data self))"
    and fresh: "\<not> (''index'' \<in> set (columns (pre_raw_data self)) \<and>
                    ''level_0'' \<in> set (columns (pre_raw_data self)))"
    and some: "\<exists>r\<in>set (rows (pre_raw_data self)). complete_row r"
    and strs: "list_all is_str (complete_instructions (pre_raw_data self))"
  shows "\<exists>report. analyze self = Inr report \<and>
     report ''dataset_number_of_samples'' = Some (length (rows (pre_raw_data self))) \<and>
     report ''dataset_columns'' = Some (length (columns (pre_raw_data self))) \<and>
     report ''dataset_duplicates'' = Some (count_repeated_rows (rows (pre_raw_data self))) \<and>
     report ''dataset_empty_rows'' = Some (count_empty_cells (pre_raw_data self)) \<and>
     report ''dataset_sample_min_len'' = Some (Min (set (instruction_lengths (pre_raw_data self)))) \<and>
     report ''dataset_sample_max_len'' = Some (Max (set (instruction_lengths (pre_raw_data self))))"
proof -
  let ?raw = "pre_raw_data self"
  from complete_instructions_after_reset_index [OF wf instr fresh] obtain erf where
    erf: "reset_index (dropna (replace_df (Str []) NA ?raw)) = Inr erf"
    and col: "getitem_column erf ''instruction'' = Inr (complete_instructions ?raw)"
    by blast
  from some have ne: "complete_instructions ?raw \<noteq> []"
    by (auto simp: complete_instructions_def filter_empty_conv)
  from min_key_len_Min [OF ne strs] obtain shortest where
    mn: "min_key_len (complete_instructions ?raw) = Inr shortest"
    and mnl: "py_len shortest = Inr (Min (set (instruction_lengths ?raw)))"
    by (auto simp: instruction_lengths_def)
  from max_key_len_Max [OF ne strs] obtain longest where
    mx: "max_key_len (complete_instructions ?raw) = Inr longest"
    and mxl: "py_len longest = Inr (Max (set (instruction_lengths ?raw)))"
    by (auto simp: instruction_lengths_def)
  from instr have "columns ?raw \<noteq> []" by auto
  then have dup: "sum_flags (duplicated ?raw) = count_repeated_rows (rows ?raw)"
    by (rule sum_flags_duplicated)
  note emp = empty_rows_count [OF wf]
  have "analyze self = Inr (map_of
          [(''dataset_number_of_samples'', length (rows ?raw)),
           (''dataset_columns'', length (columns ?raw)),
           (''dataset_duplicates'', count_repeated_rows (rows ?raw)),
           (''dataset_empty_rows'', count_empty_cells ?raw),
           (''dataset_sample_min_len'', Min (set (instruction_lengths ?raw))),
           (''dataset_sample_max_len'', Max (set (instruction_lengths ?raw)))])"
    by (simp add: analyze_def Let_def erf col mn mnl mx mxl dup emp shape_def)
  then show ?thesis by simp
qed

theorem analyze_report_witness:
  "wf_frame (pre_raw_data \<lparr>pre_raw_data = three_rows, pre_data = None\<rparr>) \<and>
   ''instruction'' \<in> set (columns (pre_raw_data \<lparr>pre_raw_data = three_rows, pre_data = None\<rparr>)) \<and>
   \<not> (''index'' \<in> set (columns (pre_raw_data \<lparr>pre_raw_data = three_rows, pre_data = None\<rparr>)) \<and>
       ''level_0'' \<in> set (columns (pre_raw_data \<lparr>pre_raw_data = three_rows, pre_data = None\<rparr>))) \<and>
   (\<exists>r\<in>set (rows (pre_raw_data \<lparr>pre_raw_data = three_rows, pre_data = None\<rparr>)). complete_row r) \<and>
   list_all is_str (complete_instructions (pre_raw_data \<lparr>pre_raw_data = three_rows, pre_data = None\<rparr>)) \<and>
   (\<exists>report. analyze \<lparr>pre_raw_data = three_rows, pre_data = None\<rparr> = Inr report \<and>
      report ''dataset_number_of_samples'' = Some 3 \<and>
      report ''dataset_columns'' = Some 4 \<and>
      report ''dataset_duplicates'' = Some 1 \<and>
      report ''dataset_empty_rows'' = Some 1 \<and>
      report ''dataset_sample_min_len'' = Some 5 \<and>
      report ''dataset_sample_max_len'' = Some 5)"
proof -
  let ?self = "\<lparr>pre_raw_data = three_rows, pre_data = None\<rparr>"
  have wf: "wf_frame (pre_raw_data ?self)" by (simp add: three_rows_wf)
  have instr: "''instruction'' \<in> set (columns (pre_raw_data ?self))"
    by (simp add: three_rows_def)
  have fresh: "\<not> (''index'' \<in> set (columns (pre_raw_data ?self)) \<and>
                   ''level_0'' \<in> set (columns (pre_raw_data ?self)))"
    by (simp add: three_rows_def)
  have some: "\<exists>r\<in>set (rows (pre_raw_data ?self)). complete_row r"
    by (simp add: three_rows_def complete_row_def is_empty_cell_def)
  have ci: "complete_instructions three_rows = [Str ''hello'', Str ''hello'']"
    by (simp add: complete_instructions_def three_rows_def complete_row_def is_empty_cell_def)
  then have strs: "list_all is_str (complete_instructions (pre_raw_data ?self))" by simp
  have vals: "length (rows (pre_raw_data ?self)) = 3" "length (columns (pre_raw_data ?self)) = 4"
    "count_repeated_rows (rows (pre_raw_data ?self)) = 1"
    "count_empty_cells (pre_raw_data ?self) = 1"
    "Min (set (instruction_lengths (pre_raw_data ?self))) = 5"
    "Max (set (instruction_lengths (pre_raw_data ?self))) = 5"
    by (simp_all add: ci instruction_lengths_def)
      (simp_all add: three_rows_def count_repeated_rows_def count_empty_cells_def
        is_empty_cell_def eval_nat_numeral)
  from analyze_report [OF wf instr fresh some strs] vals
  have "\<exists>report. analyze ?self = Inr report \<and>
      report ''dataset_number_of_samples'' = Some 3 \<and>
      report ''dataset_columns'' = Some 4 \<and>
      report ''dataset_duplicates'' = Some 1 \<and>
      report ''dataset_empty_rows'' = Some 1 \<and>
      report ''dataset_sample_min_len'' = Some 5 \<and>
      report ''dataset_sample_max_len'' = Some 5"
    by simp
  with wf instr fresh some strs show ?thesis by blast
qed

text \<open>
  C1 as stated fails: a non-empty raw table whose only row has an empty instruction
  gets no report; \<open>min\<close> is applied to an empty column and raises \<open>ValueError\<close>.
\<close>

theorem analyze_empty_instruction_counterexample:
  "wf_frame one_empty_row \<and> rows one_empty_row \<noteq> [] \<and>
   analyze \<lparr>pre_raw_data = one_empty_row, pre_data = None\<rparr> = Inl ValueError"
  using one_empty_row_fails by (simp add: wf_frame_def one_empty_row_def)

section \<open>Properties of transform: the clean table\<close>

lemma rename_map_apply:
  "(case rename_map c of None \<Rightarrow> c | Some c' \<Rightarrow> c') =
     (if c = ''instruction'' then ''question'' else if c = ''output'' then ''target'' else c)"
  by (simp add: rename_map_def)

lemma columns_rename:
  "columns (rename_columns rename_map df) =
     map (\<lambda>c. if c = ''instruction'' then ''question'' else if c = ''output'' then ''target'' else c)
       (columns df)"
  by (simp add: rename_columns_def rename_map_apply)

lemma index_of_map_inj:
  "inj_on f (insert c (set xs)) \<Longrightarrow> index_of (f c) (map f xs) = index_of c xs"
proof (induction xs)
  case Nil
  then show ?case by simp
next
  case (Cons x xs)
  then have inj: "inj_on f (insert c (set xs))"
    by (auto intro: inj_on_subset)
  from Cons.prems have "f c = f x \<longleftrightarrow> c = x"
    by (auto simp: inj_on_def)
  with Cons.IH [OF inj] show ?case by simp
qed

lemma length_filter_zip:
  "length r = length cols \<Longrightarrow>
   length (filter (\<lambda>(c, v). P c) (zip cols r)) = length (filter P cols)"
  by (induction r cols rule: list_induct2) auto

lemma kept_cell_nth:
  "length r = length cols \<Longrightarrow> c \<in> set cols \<Longrightarrow> P c \<Longrightarrow>
   map snd (filter (\<lambda>(c, v). P c) (zip cols r)) ! index_of c (filter P cols) = r ! index_of c cols"
proof (induction r cols rule: list_induct2)
  case Nil
  then show ?case by simp
next
  case (Cons v vs c0 cols)
  show ?case
  proof (cases "c = c0")
    case True
    with Cons.prems show ?thesis by simp
  next
    case False
    with Cons.prems have "c \<in> set cols" by simp
    from Cons.IH [OF this Cons.prems(2)] False show ?thesis by simp
  qed
qed

lemma transform_success:
  assumes "''input'' \<in> set (columns (pre_raw_data self))"
    and "''text'' \<in> set (columns (pre_raw_data self))"
  shows "\<exists>d. transform self = Inr (self\<lparr>pre_data := Some d\<rparr>) \<and>
           columns d = filter (\<lambda>c. c \<notin> set [''input'', ''text''])
                         (columns (rename_columns rename_map (pre_raw_data self))) \<and>
           index d = index (pre_raw_data self) \<and>
           rows d = map (\<lambda>r. map snd (filter (\<lambda>(c, v). c \<notin> set [''input'', ''text''])
                      (zip (columns (rename_columns rename_map (pre_raw_data self))) r)))
                      (rows (pre_raw_data self))"
proof -
  let ?renamed = "rename_columns rename_map (pre_raw_data self)"
  let ?d = "?renamed\<lparr>columns := filter (\<lambda>c. c \<notin> set [''input'', ''text'']) (columns ?renamed),
                      rows := map (\<lambda>r. map snd (filter (\<lambda>(c, v). c \<notin> set [''input'', ''text''])
                                                     (zip (columns ?renamed) r))) (rows ?renamed)\<rparr>"
  from assms have "list_all (\<lambda>l. l \<in> set (columns ?renamed)) [''input'', ''text'']"
    by (simp add: rename_columns_mem)
  then have "drop_columns [''input'', ''text''] ?renamed = Inr ?d"
    unfolding drop_columns_def by simp
  then have "transform self = Inr (self\<lparr>pre_data := Some ?d\<rparr>)"
    by (simp add: transform_def)
  moreover have "index ?d = index (pre_raw_data self)" "rows ?renamed = rows (pre_raw_data self)"
    by (simp_all add: rename_columns_def)
  ultimately show ?thesis
    by (intro exI [of _ ?d]) simp
qed

lemma transform_twice:
  assumes "transform self = Inr once"
  shows "transform once = Inr once"
proof (cases "drop_columns [''input'', ''text''] (rename_columns rename_map (pre_raw_data self))")
  case (Inl e)
  with assms show ?thesis by (simp add: transform_def)
next
  case (Inr d)
  with assms have "once = self\<lparr>pre_data := Some d\<rparr>" by (simp add: transform_def)
  with Inr show ?thesis by (simp add: transform_def)
qed

lemma clean_columns_four:
  assumes "set cols = {''instruction'', ''input'', ''output'', ''text''}"
  shows "set (filter (\<lambda>c. c \<notin> set [''input'', ''text''])
           (map (\<lambda>c. if c = ''instruction'' then ''question''
                      else if c = ''output'' then ''target'' else c) cols))
         = {''question'', ''target''}"
proof -
  let ?rn = "\<lambda>c. if c = ''instruction'' then ''question''
                      else if c = ''output'' then ''target'' else c"
  have "?rn ` set cols = {''question'', ''input'', ''target'', ''text''}"
    unfolding assms by auto
  then have "set (map ?rn cols) = {''question'', ''input'', ''target'', ''text''}"
    by simp
  then show ?thesis
    unfolding set_filter by auto
qed

lemma rename_inj_on_four:
  "inj_on (\<lambda>c. if c = ''instruction'' then ''question''
                else if c = ''output'' then ''target'' else c)
     {''instruction'', ''input'', ''output'', ''text''}"
  by (simp add: inj_on_def)

lemma clean_cell:
  assumes four: "set cols = {''instruction'', ''input'', ''output'', ''text''}"
    and len: "length r = length cols"
    and c: "c = ''instruction'' \<or> c = ''output''"
  shows "map snd (filter (\<lambda>(c, v). c \<notin> set [''input'', ''text''])
           (zip (map (\<lambda>c. if c = ''instruction'' then ''question''
                           else if c = ''output'' then ''target'' else c) cols) r))
         ! index_of (if c = ''instruction'' then ''question'' else ''target'')
             (filter (\<lambda>c. c \<notin> set [''input'', ''text''])
               (map (\<lambda>c. if c = ''instruction'' then ''question''
                          else if c = ''output'' then ''target'' else c) cols))
         = r ! index_of c cols"
proof -
  let ?rn = "\<lambda>c. if c = ''instruction'' then ''question''
                  else if c = ''output'' then ''target'' else c"
  let ?P = "\<lambda>c. c \<notin> set [''input'', ''text'']"
  from c have rc: "?rn c = (if c = ''instruction'' then ''question'' else ''target'')" by auto
  from c four have cin: "c \<in> set cols" by auto
  then have mem: "?rn c \<in> set (map ?rn cols)" unfolding set_map by (rule imageI)
  from c have keep: "?P (?rn c)" by auto
  from len have len': "length r = length (map ?rn cols)" by simp
  have step: "map snd (filter (\<lambda>(c, v). ?P c) (zip (map ?rn cols) r))
          ! index_of (?rn c) (filter ?P (map ?rn cols)) = r ! index_of (?rn c) (map ?rn cols)"
    using len' mem keep by (rule kept_cell_nth [where P = ?P and c = "?rn c"])
  from cin four have "insert c (set cols) = {''instruction'', ''input'', ''output'', ''text''}"
    by blast
  then have "inj_on ?rn (insert c (set cols))"
    by (simp only: rename_inj_on_four)
  then have "index_of (?rn c) (map ?rn cols) = index_of c cols"
    by (rule index_of_map_inj)
  with step show ?thesis unfolding rc by simp
qed

lemma transform_three_rows:
  "transform \<lparr>pre_raw_data = three_rows, pre_data = None\<rparr> =
     Inr \<lparr>pre_raw_data = three_rows, pre_data = Some three_rows_clean\<rparr>"
  by (simp add: transform_def drop_columns_def rename_columns_def rename_map_def three_rows_def
      three_rows_clean_def)

lemma three_rows_columns:
  "set (columns three_rows) = {''instruction'', ''input'', ''output'', ''text''}"
  by (simp add: three_rows_def)

text \<open>
  C2, as the code has it. For every well-formed raw table whose columns are exactly
  \<open>instruction\<close>, \<open>input\<close>, \<open>output\<close> and \<open>text\<close> (in any order), \<open>transform()\<close>
  stores a clean table whose column set is exactly \<open>{question, target}\<close>, with the
  same index and as many rows, in which every row holds under \<open>question\<close> what the
  raw row holds under \<open>instruction\<close> and under \<open>target\<close> what it holds under
  \<open>output\<close>.
\<close>

theorem transform_clean_table:
  assumes wf: "wf_frame (pre_raw_data self)"
    and four: "set (columns (pre_raw_data self)) = {''instruction'', ''input'', ''output'', ''text''}"
  shows "\<exists>d. transform self = Inr (self\<lparr>pre_data := Some d\<rparr>) \<and>
     set (columns d) = {''question'', ''target''} \<and> wf_frame d \<and>
     index d = index (pre_raw_data self) \<and>
     length (rows d) = length (rows (pre_raw_data self)) \<and>
     (\<forall>i<length (rows (pre_raw_data self)).
        cell_at d i ''question'' = cell_at (pre_raw_data self) i ''instruction'' \<and>
        cell_at d i ''target'' = cell_at (pre_raw_data self) i ''output'')"
proof -
  let ?raw = "pre_raw_data self"
  let ?rn = "\<lambda>c. if c = ''instruction'' then ''question''
                  else if c = ''output'' then ''target'' else c"
  let ?P = "\<lambda>c. c \<notin> set [''input'', ''text'']"
  from four have "''input'' \<in> set (columns ?raw)" "''text'' \<in> set (columns ?raw)" by simp_all
  from transform_success [OF this] obtain d where
    tr: "transform self = Inr (self\<lparr>pre_data := Some d\<rparr>)"
    and cols: "columns d = filter ?P (map ?rn (columns ?raw))"
    and idx: "index d = index ?raw"
    and rws: "rows d = map (\<lambda>r. map snd (filter (\<lambda>(c, v). ?P c) (zip (map ?rn (columns ?raw)) r)))
                         (rows ?raw)"
    unfolding columns_rename by blast
  have setc: "set (columns d) = {''question'', ''target''}"
    unfolding cols by (rule clean_columns_four [OF four])
  from wf have dist: "distinct (columns ?raw)"
    and li: "length (index ?raw) = length (rows ?raw)"
    and lr: "\<And>r. r \<in> set (rows ?raw) \<Longrightarrow> length r = length (columns ?raw)"
    by (simp_all add: wf_frame_def list_all_iff)
  from rename_inj_on_four four have "inj_on ?rn (set (columns ?raw))" by simp
  with dist have "distinct (map ?rn (columns ?raw))" by (simp add: distinct_map)
  then have distd: "distinct (columns d)" unfolding cols by (rule distinct_filter)
  have rowlen: "list_all (\<lambda>r. length r = length (columns d)) (rows d)"
    unfolding rws cols list_all_iff
  proof
    fix x
    assume "x \<in> set (map (\<lambda>r. map snd (filter (\<lambda>(c, v). ?P c) (zip (map ?rn (columns ?raw)) r)))
                         (rows ?raw))"
    then obtain r where r: "r \<in> set (rows ?raw)"
      and x: "x = map snd (filter (\<lambda>(c, v). ?P c) (zip (map ?rn (columns ?raw)) r))"
      by auto
    from lr [OF r] have "length r = length (map ?rn (columns ?raw))" by simp
    from length_filter_zip [OF this, of ?P] x
    show "length x = length (filter ?P (map ?rn (columns ?raw)))" by simp
  qed
  from distd li rowlen have wfd: "wf_frame d"
    by (simp add: wf_frame_def idx rws)
  have cells: "\<forall>i<length (rows ?raw).
        cell_at d i ''question'' = cell_at ?raw i ''instruction'' \<and>
        cell_at d i ''target'' = cell_at ?raw i ''output''"
  proof (intro allI impI)
    fix i
    assume i: "i < length (rows ?raw)"
    then have len: "length (rows ?raw ! i) = length (columns ?raw)"
      by (intro lr nth_mem)
    from i have row: "rows d ! i =
        map snd (filter (\<lambda>(c, v). ?P c) (zip (map ?rn (columns ?raw)) (rows ?raw ! i)))"
      unfolding rws by simp
    from clean_cell [OF four len, of "''instruction''"] clean_cell [OF four len, of "''output''"]
    show "cell_at d i ''question'' = cell_at ?raw i ''instruction'' \<and>
          cell_at d i ''target'' = cell_at ?raw i ''output''"
      unfolding cell_at_def row cols by simp
  qed
  from tr setc wfd idx rws cells show ?thesis
    by (intro exI [of _ d]) simp
qed

theorem transform_clean_table_witness:
  "wf_frame (pre_raw_data \<lparr>pre_raw_data = three_rows, pre_data = None\<rparr>) \<and>
   set (columns (pre_raw_data \<lparr>pre_raw_data = three_rows, pre_data = None\<rparr>))
     = {''instruction'', ''input'', ''output'', ''text''} \<and>
   transform \<lparr>pre_raw_data = three_rows, pre_data = None\<rparr> =
     Inr \<lparr>pre_raw_data = three_rows, pre_data = Some three_rows_clean\<rparr> \<and>
   set (columns three_rows_clean) = {''question'', ''target''} \<and>
   wf_frame three_rows_clean \<and>
   (2::nat) < length (rows three_rows) \<and>
   cell_at three_rows_clean 2 ''question'' = cell_at three_rows 2 ''instruction'' \<and>
   cell_at three_rows_clean 2 ''target'' = cell_at three_rows 2 ''output''"
proof -
  let ?self = "\<lparr>pre_raw_data = three_rows, pre_data = None\<rparr>"
  have wf: "wf_frame (pre_raw_data ?self)" by (simp add: three_rows_wf)
  have four: "set (columns (pre_raw_data ?self)) = {''instruction'', ''input'', ''output'', ''text''}"
    by (simp add: three_rows_columns)
  have two: "(2::nat) < length (rows three_rows)" by (simp add: three_rows_def)
  from transform_clean_table [OF wf four] obtain d where
    d: "transform ?self = Inr (?self\<lparr>pre_data := Some d\<rparr>)"
    and props: "set (columns d) = {''question'', ''target''}" "wf_frame d"
      "\<forall>i<length (rows (pre_raw_data ?self)).
        cell_at d i ''question'' = cell_at (pre_raw_data ?self) i ''instruction'' \<and>
        cell_at d i ''target'' = cell_at (pre_raw_data ?self) i ''output''"
    by blast
  from d transform_three_rows have "d = three_rows_clean" by simp
  with props two have "set (columns three_rows_clean) = {''question'', ''target''}"
    "wf_frame three_rows_clean"
    "cell_at three_rows_clean 2 ''question'' = cell_at three_rows 2 ''instruction''"
    "cell_at three_rows_clean 2 ''target'' = cell_at three_rows 2 ''output''"
    by simp_all
  with wf four two transform_three_rows show ?thesis by blast
qed

text \<open>
  C2 as stated fails: a raw table with a further column \<open>id\<close> is transformed into a
  clean table that keeps this column.
\<close>

theorem transform_extra_column_counterexample:
  "transform \<lparr>pre_raw_data = with_id_column, pre_data = None\<rparr> =
     Inr \<lparr>pre_raw_data = with_id_column,
          pre_data = Some \<lparr>columns = [''question'', ''target'', ''id''], index = [0],
                            rows = [[Str ''hello'', Str ''b'', Num 7]]\<rparr>\<rparr> \<and>
   ''id'' \<in> set [''question'', ''target'', ''id''] \<and>
   ''id'' \<notin> {''question'', ''target''}"
  by (simp add: transform_def drop_columns_def rename_columns_def rename_map_def
      with_id_column_def)

text \<open>
  C8, as the code has it. For every raw table on which \<open>transform()\<close> succeeds,
  applying it a second time succeeds and leaves exactly the state that the first
  application left; when the raw columns are exactly \<open>instruction\<close>, \<open>input\<close>,
  \<open>output\<close> and \<open>text\<close>, the stored clean table has exactly the columns
  \<open>{question, target}\<close>.
\<close>

theorem transform_idempotent:
  assumes "transform self = Inr once"
  shows "transform once = Inr once \<and>
         (set (columns (pre_raw_data self)) = {''instruction'', ''input'', ''output'', ''text''} \<longrightarrow>
            (\<exists>d. pre_data once = Some d \<and> set (columns d) = {''question'', ''target''}))"
proof (intro conjI impI)
  from assms show "transform once = Inr once" by (rule transform_twice)
next
  assume four: "set (columns (pre_raw_data self)) = {''instruction'', ''input'', ''output'', ''text''}"
  then have "''input'' \<in> set (columns (pre_raw_data self))" "''text'' \<in> set (columns (pre_raw_data self))"
    by simp_all
  from transform_success [OF this] obtain d where
    d: "transform self = Inr (self\<lparr>pre_data := Some d\<rparr>)"
    and cols: "columns d = filter (\<lambda>c. c \<notin> set [''input'', ''text''])
                 (map (\<lambda>c. if c = ''instruction'' then ''question''
                            else if c = ''output'' then ''target'' else c) (columns (pre_raw_data self)))"
    unfolding columns_rename by blast
  from d assms have "pre_data once = Some d" by simp
  moreover have "set (columns d) = {''question'', ''target''}"
    unfolding cols by (rule clean_columns_four [OF four])
  ultimately show "\<exists>d. pre_data once = Some d \<and> set (columns d) = {''question'', ''target''}"
    by blast
qed

theorem transform_idempotent_witness:
  "transform \<lparr>pre_raw_data = three_rows, pre_data = None\<rparr> =
     Inr \<lparr>pre_raw_data = three_rows, pre_data = Some three_rows_clean\<rparr> \<and>
   transform \<lparr>pre_raw_data = three_rows, pre_data = Some three_rows_clean\<rparr> =
     Inr \<lparr>pre_raw_data = three_rows, pre_data = Some three_rows_clean\<rparr> \<and>
   set (columns (pre_raw_data \<lparr>pre_raw_data = three_rows, pre_data = None\<rparr>))
     = {''instruction'', ''input'', ''output'', ''text''} \<and>
   set (columns three_rows_clean) = {''question'', ''target''}"
proof -
  have four: "set (columns (pre_raw_data \<lparr>pre_raw_data = three_rows, pre_data = None\<rparr>))
     = {''instruction'', ''input'', ''output'', ''text''}"
    by (simp add: three_rows_columns)
  from transform_idempotent [OF transform_three_rows] four
  have "transform \<lparr>pre_raw_data = three_rows, pre_data = Some three_rows_clean\<rparr> =
     Inr \<lparr>pre_raw_data = three_rows, pre_data = Some three_rows_clean\<rparr>"
    and "set (columns three_rows_clean) = {''question'', ''target''}"
    by simp_all
  with four transform_three_rows show ?thesis by blast
qed

text \<open>
  C8 as stated fails: on a raw table without an \<open>output\<close> column \<open>transform()\<close>
  succeeds, once and twice, and the stored clean table has no column \<open>target\<close>.
\<close>

theorem transform_idempotent_counterexample:
  "transform \<lparr>pre_raw_data = without_output, pre_data = None\<rparr> =
     Inr \<lparr>pre_raw_data = without_output,
          pre_data = Some \<lparr>columns = [''question''], index = [0], rows = [[Str ''hello'']]\<rparr>\<rparr> \<and>
   transform \<lparr>pre_raw_data = without_output,
          pre_data = Some \<lparr>columns = [''question''], index = [0], rows = [[Str ''hello'']]\<rparr>\<rparr> =
     Inr \<lparr>pre_raw_data = without_output,
          pre_data = Some \<lparr>columns = [''question''], index = [0], rows = [[Str ''hello'']]\<rparr>\<rparr> \<and>
   ''target'' \<notin> set [''question'']"
  by (simp add: transform_def drop_columns_def rename_columns_def rename_map_def
      without_output_def)

end
